theory Spec2Isabelle
  imports Main "HOL-Library.Word"
begin

unbundle bit_operations_syntax

section \<open>Event log (1eventlog/eventlog.cc)\<close>

text \<open>
  The event log keeps a table of open files and a scratch buffer \<open>temp\<close> of 8192 bytes
  into which \<open>escape\<close> renders a binary argument.  Bytes are \<open>8 word\<close>; the rendered text
  is a HOL \<open>string\<close> (a list of 8-bit characters).

  \<open>escape\<close> reads its input through a \<open>const char *\<close>.  Whether plain \<open>char\<close> is signed is
  fixed by the target ABI (signed on x86 and x86-64, unsigned on ARM Linux), so the model
  takes it as the parameter \<open>char_signed\<close>.  Both \<open>isascii(d[i])\<close> and the variadic call
  \<open>sprintf(out, "\\x%02x", d[i])\<close> receive \<open>d[i]\<close> after the integer promotion to a 32-bit
  \<open>int\<close>; \<open>%x\<close> then prints that \<open>int\<close> read as \<open>unsigned int\<close>.
\<close>

type_synonym byte = "8 word"

definition promote_char :: "bool \<Rightarrow> byte \<Rightarrow> 32 word" where
  "promote_char char_signed c = (if char_signed then scast c else ucast c)"

definition isascii :: "32 word \<Rightarrow> bool" where
  "isascii c = (c AND NOT 0x7f = 0)"

definition hex_digit :: "nat \<Rightarrow> char" where
  "hex_digit d = ''0123456789abcdef'' ! d"

fun hex_digits :: "nat \<Rightarrow> string" where
  "hex_digits n = (if n < 16 then [hex_digit n] else hex_digits (n div 16) @ [hex_digit (n mod 16)])"

declare hex_digits.simps [simp del]

text \<open>The conversion \<open>%02x\<close>: lower-case hexadecimal, at least two digits, padded with zeros.\<close>

definition printf_02x :: "32 word \<Rightarrow> string" where
  "printf_02x v = (let ds = hex_digits (unat v) in replicate (2 - length ds) (CHR ''0'') @ ds)"

definition dquote :: char where
  "dquote = CHR 0x22"

definition backslash :: char where
  "backslash = CHR 0x5C"

fun escape_bytes :: "bool \<Rightarrow> byte list \<Rightarrow> string" where
  "escape_bytes char_signed [] = []"
| "escape_bytes char_signed (c # cs) =
     (if isascii (promote_char char_signed c)
      then char_of (unat c) # escape_bytes char_signed cs
      else backslash # CHR ''x'' # printf_02x (promote_char char_signed c) @ escape_bytes char_signed cs)"

text \<open>
  \<open>escape data size\<close>: \<open>size\<close> is capped at 512; the loop reads \<open>d[0] .. d[size - 1]\<close>.  A
  \<open>size\<close> beyond the buffer is an out-of-bounds read in C, which the model reports as
  \<open>None\<close>.  The result is the text written to \<open>temp\<close> before the terminating NUL.
\<close>

definition escape :: "bool \<Rightarrow> byte list \<Rightarrow> nat \<Rightarrow> string option" where
  "escape char_signed data size0 =
     (let size1 = (if size0 > 512 then 512 else size0) in
      if size1 > length data then None
      else Some (dquote # escape_bytes char_signed (take size1 data) @ [dquote]))"

text \<open>
  The table of open files: a file name is mapped to the text written through its handle so
  far.  \<open>fopen\<close> belongs to the C library; whether a path can be opened is the parameter
  \<open>can_open\<close>.  \<open>open_or_create\<close> throws \<open>HAM_IO_ERROR\<close> when neither the log nor
  \<open>lost+found.elog\<close> can be opened.
\<close>

datatype eventlog_error = HAM_IO_ERROR_elog

type_synonym eventlog_files = "string \<rightharpoonup> string"

definition default_filename :: "string \<Rightarrow> string" where
  "default_filename filename = (if filename = [] then ''hamsterdb-inmem'' else filename)"

definition path_from_filename :: "string \<Rightarrow> string" where
  "path_from_filename filename = filename @ ''.elog''"

definition open_or_create :: "(string \<Rightarrow> bool) \<Rightarrow> eventlog_files \<Rightarrow> string \<Rightarrow> string
    \<Rightarrow> eventlog_error + eventlog_files" where
  "open_or_create can_open files filename0 mode =
     (let filename = default_filename filename0 in
      case files filename of
        Some f \<Rightarrow>
          (if filename \<noteq> ''hamsterdb-inmem''
           then Inr (files(filename \<mapsto> f @ ''ERROR creating/opening log which already exists (''
                        @ filename @ '', '' @ mode @ '')'' @ [CHR 0x0A]))
           else if can_open (path_from_filename filename) then Inr (files(filename \<mapsto> []))
           else if can_open ''lost+found.elog'' then Inr (files(filename \<mapsto> []))
           else Inl HAM_IO_ERROR_elog)
      | None \<Rightarrow>
          (if can_open (path_from_filename filename) then Inr (files(filename \<mapsto> []))
           else if can_open ''lost+found.elog'' then Inr (files(filename \<mapsto> []))
           else Inl HAM_IO_ERROR_elog))"

text \<open>
  \<open>append filename tag format ...\<close>: \<open>args\<close> is the text \<open>util_vsnprintf\<close> produces from the
  format and its arguments; the 4096-byte buffer keeps at most 4095 characters of it.  A
  missing handle is opened first (\<open>open\<close>, mode \<open>a+\<close>); the line \<open>TAG(args);\<close> and a newline
  are then written to the handle.
\<close>

definition append_eventlog :: "(string \<Rightarrow> bool) \<Rightarrow> eventlog_files \<Rightarrow> string \<Rightarrow> string
    \<Rightarrow> string \<Rightarrow> eventlog_error + eventlog_files" where
  "append_eventlog can_open files filename0 tag args =
     (let filename = default_filename filename0;
          buffer = take 4095 args;
          line = tag @ ''('' @ buffer @ '');'' @ [CHR 0x0A] in
      case files filename of
        Some f \<Rightarrow> Inr (files(filename \<mapsto> f @ line))
      | None \<Rightarrow>
          (case open_or_create can_open files filename ''a+'' of
             Inl e \<Rightarrow> Inl e
           | Inr files1 \<Rightarrow>
               (case files1 filename of
                  Some f \<Rightarrow> Inr (files1(filename \<mapsto> f @ line))
                | None \<Rightarrow> Inr files1)))"


subsection \<open>Properties of the event log\<close>

lemma append_eventlog_open_handle:
  "files (default_filename filename) = Some f \<Longrightarrow>
   append_eventlog can_open files filename tag args =
     Inr (files(default_filename filename \<mapsto> f @ tag @ ''('' @ take 4095 args @ '');'' @ [CHR 0x0A]))"
  by (simp add: append_eventlog_def)

lemma printf_02x_0x80: "printf_02x 0x80 = ''80''"
  by (simp add: printf_02x_def hex_digits.simps hex_digit_def)

lemma printf_02x_minus_128: "printf_02x (- 128) = ''ffffff80''"
  by (simp add: printf_02x_def hex_digits.simps hex_digit_def)

lemma char_of_65: "char_of (65::nat) = CHR ''A''"
  by code_simp

lemma escape_ascii_byte:
  "escape char_signed [0x41] 1 = Some [dquote, CHR ''A'', dquote]"
  by (simp add: escape_def promote_char_def isascii_def char_of_65)

lemma escape_unsigned_char_high_byte:
  "escape False [0x80] 1 = Some (dquote # backslash # ''x80'' @ [dquote])"
  by (simp add: escape_def promote_char_def isascii_def printf_02x_0x80)

text \<open>
  Claim C10 (event-log argument escaping).  The claim says that \<open>escape\<close> renders every
  non-ASCII byte as a backslash, \<open>x\<close> and two hexadecimal digits.  Where plain \<open>char\<close> is
  signed, the byte \<open>0x80\<close> is promoted to the negative \<open>int\<close> \<open>-128\<close>, and \<open>%02x\<close> prints
  it as the eight digits \<open>ffffff80\<close>: the rendering of the one-byte buffer \<open>[0x80]\<close> is
  the quoted text \<open>\xffffff80\<close>, not \<open>\x80\<close>.
\<close>

theorem escape_signed_char_sign_extends:
  "escape True [0x80] 1 = Some (dquote # backslash # ''xffffff80'' @ [dquote])"
  by (simp add: escape_def promote_char_def isascii_def printf_02x_minus_128)

section \<open>B-tree cursor primitives (btree_cursor.c)\<close>

text \<open>
  Status codes are values of \<open>ham_status_t\<close>; the C test \<open>if (st)\<close> is \<open>st \<noteq> HAM_SUCCESS\<close>.
  The flag words of the source are modelled as sets of named flags: the numeric values
  of the constants live in headers outside the sources at hand, and the code only tests,
  sets and clears single flags (\<open>flags & F\<close> is \<open>F \<in> flags\<close>, \<open>flags |= F\<close> is
  \<open>insert F flags\<close>, \<open>flags &= ~F\<close> is \<open>flags - {F}\<close>).
\<close>

datatype ham_status_t =
    HAM_SUCCESS
  | HAM_KEY_NOT_FOUND
  | HAM_CURSOR_IS_NIL
  | HAM_INV_INDEX
  | HAM_INV_PARAMETER
  | HAM_OUT_OF_MEMORY
  | HAM_IO_ERROR
  | HAM_KEY_ERASED_IN_TXN
  | HAM_TXN_CONFLICT
  | HAM_LIMITS_REACHED

datatype move_flag =
    HAM_CURSOR_FIRST
  | HAM_CURSOR_LAST
  | HAM_CURSOR_NEXT
  | HAM_CURSOR_PREVIOUS
  | HAM_SKIP_DUPLICATES
  | CURSOR_SYNC_ONLY_EQUAL_KEY
  | CURSOR_SYNC_DONT_LOAD_KEY
  | HAM_FIND_GEQ_MATCH
  | HAM_FIND_LEQ_MATCH

datatype bt_cursor_flag = BT_CURSOR_FLAG_COUPLED | BT_CURSOR_FLAG_UNCOUPLED

text \<open>
  A leaf or index node: its entries (the array \<open>_entries[0 .. count - 1]\<close> as a list, so
  \<open>btree_node_get_count\<close> is the length), the leaf mark, the left-most child pointer and
  the two sibling pointers.  Page addresses are 64-bit file offsets; 0 is the null
  address.  A page carries its node and the list of cursors coupled to it (by cursor
  id).
\<close>

record key_t =
  key_data :: "byte list"
  key_ptr :: "64 word"

record btree_node_t =
  node_entries :: "key_t list"
  node_is_leaf :: bool
  node_ptr_left :: "64 word"
  node_left :: "64 word"
  node_right :: "64 word"

record ham_page_t =
  page_node :: btree_node_t
  page_cursors :: "nat list"

record ham_db_t =
  db_pages :: "64 word \<rightharpoonup> ham_page_t"
  db_error :: ham_status_t
  db_txn :: bool
  db_backend :: bool
  btree_rootpage :: "64 word"

record ham_bt_cursor_t =
  cursor_id :: nat
  bt_flags :: "bt_cursor_flag set"
  coupled_page :: "64 word"
  coupled_index :: "32 word"
  uncoupled_key :: "byte list option"

definition btree_node_get_count :: "btree_node_t \<Rightarrow> nat" where
  "btree_node_get_count node = length (node_entries node)"

text \<open>
  Collaborators that are not part of the cursor code are parameters of the model,
  collected in one record: transactions, the tree lookup \<open>btree_find_cursor\<close> (which
  couples the cursor on success and leaves it nil otherwise), key copying and the
  readers of key and record data.
\<close>

record bt_env =
  ham_txn_begin :: "ham_db_t \<Rightarrow> ham_status_t \<times> ham_db_t"
  ham_txn_commit :: "ham_db_t \<Rightarrow> ham_status_t \<times> ham_db_t"
  ham_txn_abort :: "ham_db_t \<Rightarrow> ham_db_t"
  btree_find_cursor :: "ham_db_t \<Rightarrow> ham_bt_cursor_t \<Rightarrow> byte list
      \<Rightarrow> ham_status_t \<times> ham_db_t \<times> ham_bt_cursor_t"
  util_copy_key :: "ham_db_t \<Rightarrow> byte list \<Rightarrow> byte list option \<times> ham_db_t"
  util_read_key :: "ham_db_t \<Rightarrow> key_t \<Rightarrow> ham_status_t \<times> byte list"
  util_read_record :: "ham_db_t \<Rightarrow> key_t \<Rightarrow> ham_status_t \<times> byte list"

text \<open>
  \<open>db_fetch_page\<close> returns the page stored at an address, or null when there is none; in
  the latter case the model records \<open>HAM_IO_ERROR\<close> as the database error.
\<close>

definition db_fetch_page :: "ham_db_t \<Rightarrow> 64 word \<Rightarrow> (64 word \<times> ham_page_t) option \<times> ham_db_t" where
  "db_fetch_page db address =
     (case db_pages db address of
        Some pg \<Rightarrow> (Some (address, pg), db)
      | None \<Rightarrow> (None, db\<lparr>db_error := HAM_IO_ERROR\<rparr>))"

definition page_add_cursor :: "ham_db_t \<Rightarrow> 64 word \<Rightarrow> nat \<Rightarrow> ham_db_t" where
  "page_add_cursor db address cid =
     (case db_pages db address of
        Some pg \<Rightarrow> db\<lparr>db_pages := (db_pages db)(address \<mapsto> pg\<lparr>page_cursors := cid # page_cursors pg\<rparr>)\<rparr>
      | None \<Rightarrow> db)"

definition page_remove_cursor :: "ham_db_t \<Rightarrow> 64 word \<Rightarrow> nat \<Rightarrow> ham_db_t" where
  "page_remove_cursor db address cid =
     (case db_pages db address of
        Some pg \<Rightarrow> db\<lparr>db_pages := (db_pages db)(address \<mapsto> pg\<lparr>page_cursors := remove1 cid (page_cursors pg)\<rparr>)\<rparr>
      | None \<Rightarrow> db)"

definition bt_cursor_is_nil :: "ham_bt_cursor_t \<Rightarrow> bool" where
  "bt_cursor_is_nil c =
     (BT_CURSOR_FLAG_COUPLED \<notin> bt_flags c \<and> BT_CURSOR_FLAG_UNCOUPLED \<notin> bt_flags c)"

definition my_set_to_nil :: "ham_db_t \<Rightarrow> ham_bt_cursor_t \<Rightarrow> ham_status_t \<times> ham_db_t \<times> ham_bt_cursor_t" where
  "my_set_to_nil db c =
     (if BT_CURSOR_FLAG_UNCOUPLED \<in> bt_flags c
      then (HAM_SUCCESS, db,
            c\<lparr>uncoupled_key := None, bt_flags := bt_flags c - {BT_CURSOR_FLAG_UNCOUPLED}\<rparr>)
      else if BT_CURSOR_FLAG_COUPLED \<in> bt_flags c
      then (HAM_SUCCESS, page_remove_cursor db (coupled_page c) (cursor_id c),
            c\<lparr>bt_flags := bt_flags c - {BT_CURSOR_FLAG_COUPLED}\<rparr>)
      else (HAM_SUCCESS, db, c))"

definition couple_to :: "ham_db_t \<Rightarrow> ham_bt_cursor_t \<Rightarrow> 64 word \<Rightarrow> 32 word \<Rightarrow> ham_db_t \<times> ham_bt_cursor_t" where
  "couple_to db c address idx =
     (page_add_cursor db address (cursor_id c),
      c\<lparr>coupled_page := address, coupled_index := idx,
        bt_flags := insert BT_CURSOR_FLAG_COUPLED (bt_flags c)\<rparr>)"

text \<open>
  The descent loops of \<open>my_move_first\<close> and \<open>my_move_last\<close> follow child pointers until
  a leaf is reached.  Nothing in the code bounds the walk, so the loops are partial
  functions: \<open>None\<close> stands for a walk that never ends.  The result is the status, the
  database and the leaf page reached.
\<close>

partial_function (option) descend_leftmost ::
    "ham_db_t \<Rightarrow> 64 word \<Rightarrow> ham_page_t \<Rightarrow> (ham_status_t \<times> ham_db_t \<times> 64 word \<times> ham_page_t) option" where
  "descend_leftmost db address pg =
     (if btree_node_get_count (page_node pg) = 0
      then Some (HAM_KEY_NOT_FOUND, db\<lparr>db_error := HAM_KEY_NOT_FOUND\<rparr>, address, pg)
      else if node_is_leaf (page_node pg) then Some (HAM_SUCCESS, db, address, pg)
      else (case db_fetch_page db (node_ptr_left (page_node pg)) of
              (None, db1) \<Rightarrow>
                (let db2 = (if db_error db1 = HAM_SUCCESS then db1\<lparr>db_error := HAM_KEY_NOT_FOUND\<rparr> else db1)
                 in Some (db_error db2, db2, address, pg))
            | (Some (a1, pg1), db1) \<Rightarrow> descend_leftmost db1 a1 pg1))"

partial_function (option) descend_rightmost ::
    "ham_db_t \<Rightarrow> 64 word \<Rightarrow> ham_page_t \<Rightarrow> (ham_status_t \<times> ham_db_t \<times> 64 word \<times> ham_page_t) option" where
  "descend_rightmost db address pg =
     (if btree_node_get_count (page_node pg) = 0
      then Some (HAM_KEY_NOT_FOUND, db\<lparr>db_error := HAM_KEY_NOT_FOUND\<rparr>, address, pg)
      else if node_is_leaf (page_node pg) then Some (HAM_SUCCESS, db, address, pg)
      else (case db_fetch_page db (key_ptr (last (node_entries (page_node pg)))) of
              (None, db1) \<Rightarrow>
                (let db2 = (if db_error db1 = HAM_SUCCESS then db1\<lparr>db_error := HAM_KEY_NOT_FOUND\<rparr> else db1)
                 in Some (db_error db2, db2, address, pg))
            | (Some (a1, pg1), db1) \<Rightarrow> descend_rightmost db1 a1 pg1))"

definition my_move_first :: "ham_db_t \<Rightarrow> ham_bt_cursor_t
    \<Rightarrow> (ham_status_t \<times> ham_db_t \<times> ham_bt_cursor_t) option" where
  "my_move_first db0 c0 =
     (case my_set_to_nil db0 c0 of (st, db1, c) \<Rightarrow>
      if st \<noteq> HAM_SUCCESS then Some (st, db1, c)
      else let db = db1\<lparr>db_error := HAM_SUCCESS\<rparr> in
      if btree_rootpage db = 0 then Some (HAM_KEY_NOT_FOUND, db\<lparr>db_error := HAM_KEY_NOT_FOUND\<rparr>, c)
      else (case db_fetch_page db (btree_rootpage db) of
              (None, db2) \<Rightarrow> Some (db_error db2, db2, c)
            | (Some (a, pg), db2) \<Rightarrow>
                (case descend_leftmost db2 a pg of
                   None \<Rightarrow> None
                 | Some (st1, db3, leaf, leafpg) \<Rightarrow>
                     if st1 \<noteq> HAM_SUCCESS then Some (st1, db3, c)
                     else (case couple_to db3 c leaf 0 of (db4, c1) \<Rightarrow> Some (HAM_SUCCESS, db4, c1)))))"

definition my_move_last :: "ham_db_t \<Rightarrow> ham_bt_cursor_t
    \<Rightarrow> (ham_status_t \<times> ham_db_t \<times> ham_bt_cursor_t) option" where
  "my_move_last db0 c0 =
     (case my_set_to_nil db0 c0 of (st, db1, c) \<Rightarrow>
      if st \<noteq> HAM_SUCCESS then Some (st, db1, c)
      else let db = db1\<lparr>db_error := HAM_SUCCESS\<rparr> in
      if btree_rootpage db = 0 then Some (HAM_KEY_NOT_FOUND, db\<lparr>db_error := HAM_KEY_NOT_FOUND\<rparr>, c)
      else (case db_fetch_page db (btree_rootpage db) of
              (None, db2) \<Rightarrow> Some (db_error db2, db2, c)
            | (Some (a, pg), db2) \<Rightarrow>
                (case descend_rightmost db2 a pg of
                   None \<Rightarrow> None
                 | Some (st1, db3, leaf, leafpg) \<Rightarrow>
                     if st1 \<noteq> HAM_SUCCESS then Some (st1, db3, c)
                     else (case couple_to db3 c leaf
                                  (of_nat (btree_node_get_count (page_node leafpg)) - 1) of
                             (db4, c1) \<Rightarrow> Some (HAM_SUCCESS, db4, c1)))))"

text \<open>
  \<open>bt_cursor_find\<close> and \<open>bt_cursor_couple\<close>.  A function that opens a local transaction
  (when the database has none) aborts it on every error path and commits it at the end.
  Coupling an uncoupled cursor whose cached key is missing dereferences a null pointer;
  the model has no return value for it (\<open>None\<close>).
\<close>

definition bt_cursor_find :: "bt_env \<Rightarrow> ham_db_t \<Rightarrow> ham_bt_cursor_t \<Rightarrow> byte list
    \<Rightarrow> ham_status_t \<times> ham_db_t \<times> ham_bt_cursor_t" where
  "bt_cursor_find env db0 c0 k =
     (if \<not> db_backend db0 then (HAM_INV_INDEX, db0, c0)
      else let local_txn = \<not> db_txn db0 in
      case (if local_txn then ham_txn_begin env db0 else (HAM_SUCCESS, db0)) of (st0, db1) \<Rightarrow>
      if st0 \<noteq> HAM_SUCCESS then (st0, db1, c0)
      else case my_set_to_nil db1 c0 of (st1, db2, c1) \<Rightarrow>
      if st1 \<noteq> HAM_SUCCESS
      then (st1, if local_txn then ham_txn_abort env db2 else db2, c1)
      else case btree_find_cursor env db2 c1 k of (st2, db3, c2) \<Rightarrow>
      if st2 \<noteq> HAM_SUCCESS
      then (st2, if local_txn then ham_txn_abort env db3 else db3, c2)
      else if local_txn
      then (case ham_txn_commit env db3 of (st3, db4) \<Rightarrow> (st3, db4, c2))
      else (HAM_SUCCESS, db3, c2))"

definition bt_cursor_couple :: "bt_env \<Rightarrow> ham_db_t \<Rightarrow> ham_bt_cursor_t
    \<Rightarrow> (ham_status_t \<times> ham_db_t \<times> ham_bt_cursor_t) option" where
  "bt_cursor_couple env db0 c0 =
     (let local_txn = \<not> db_txn db0 in
      case (if local_txn then ham_txn_begin env db0 else (HAM_SUCCESS, db0)) of (st0, db1) \<Rightarrow>
      if st0 \<noteq> HAM_SUCCESS then Some (st0, db1, c0)
      else case uncoupled_key c0 of
        None \<Rightarrow> None
      | Some cached \<Rightarrow>
         (case util_copy_key env db1 cached of
            (None, db2) \<Rightarrow>
              Some (db_error db2, if local_txn then ham_txn_abort env db2 else db2, c0)
          | (Some k, db2) \<Rightarrow>
              (case bt_cursor_find env db2 c0 k of (st1, db3, c1) \<Rightarrow>
               if st1 \<noteq> HAM_SUCCESS
               then Some (st1, if local_txn then ham_txn_abort env db3 else db3, c1)
               else if local_txn
               then (case ham_txn_commit env db3 of (st2, db4) \<Rightarrow> Some (st2, db4, c1))
               else Some (HAM_SUCCESS, db3, c1))))"

text \<open>
  \<open>my_move_next\<close> and \<open>my_move_previous\<close>.  Both first couple an uncoupled cursor and
  give up on a nil one.  \<open>page\<close> and \<open>node\<close> are then read from the cursor; a coupled page
  that is not in the store is a dangling pointer (\<open>None\<close>).  In \<open>my_move_previous\<close> the
  variable \<open>node\<close> is assigned once, from the page the cursor starts on, and is read again
  after \<open>page\<close> has been replaced by the left sibling.
\<close>

definition my_move_next :: "bt_env \<Rightarrow> ham_db_t \<Rightarrow> ham_bt_cursor_t
    \<Rightarrow> (ham_status_t \<times> ham_db_t \<times> ham_bt_cursor_t) option" where
  "my_move_next env db0 c0 =
     (case (if BT_CURSOR_FLAG_UNCOUPLED \<in> bt_flags c0 then bt_cursor_couple env db0 c0
            else if BT_CURSOR_FLAG_COUPLED \<notin> bt_flags c0 then Some (HAM_CURSOR_IS_NIL, db0, c0)
            else Some (HAM_SUCCESS, db0, c0)) of
        None \<Rightarrow> None
      | Some (st, db1, c) \<Rightarrow>
          if st \<noteq> HAM_SUCCESS then Some (st, db1, c)
          else let db = db1\<lparr>db_error := HAM_SUCCESS\<rparr> in
          (case db_pages db (coupled_page c) of
             None \<Rightarrow> None
           | Some pg \<Rightarrow>
               let node = page_node pg in
               if unat (coupled_index c + 1) < btree_node_get_count node
               then Some (HAM_SUCCESS, db, c\<lparr>coupled_index := coupled_index c + 1\<rparr>)
               else
                 let db2 = page_remove_cursor db (coupled_page c) (cursor_id c);
                     c2 = c\<lparr>bt_flags := bt_flags c - {BT_CURSOR_FLAG_COUPLED}\<rparr>
                 in if node_right node = 0 then Some (HAM_CURSOR_IS_NIL, db2, c2)
                    else (case db_fetch_page db2 (node_right node) of
                            (None, db3) \<Rightarrow> Some (db_error db3, db3, c2)
                          | (Some (a, pg1), db3) \<Rightarrow>
                              (case couple_to db3 c2 a 0 of (db4, c3) \<Rightarrow> Some (HAM_SUCCESS, db4, c3)))))"

definition my_move_previous :: "bt_env \<Rightarrow> ham_db_t \<Rightarrow> ham_bt_cursor_t
    \<Rightarrow> (ham_status_t \<times> ham_db_t \<times> ham_bt_cursor_t) option" where
  "my_move_previous env db0 c0 =
     (case (if BT_CURSOR_FLAG_UNCOUPLED \<in> bt_flags c0 then bt_cursor_couple env db0 c0
            else if BT_CURSOR_FLAG_COUPLED \<notin> bt_flags c0 then Some (HAM_CURSOR_IS_NIL, db0, c0)
            else Some (HAM_SUCCESS, db0, c0)) of
        None \<Rightarrow> None
      | Some (st, db1, c) \<Rightarrow>
          if st \<noteq> HAM_SUCCESS then Some (st, db1, c)
          else let db = db1\<lparr>db_error := HAM_SUCCESS\<rparr> in
          (case db_pages db (coupled_page c) of
             None \<Rightarrow> None
           | Some pg \<Rightarrow>
               let node = page_node pg in
               if coupled_index c \<noteq> 0
               then Some (HAM_SUCCESS, db, c\<lparr>coupled_index := coupled_index c - 1\<rparr>)
               else
                 let db2 = page_remove_cursor db (coupled_page c) (cursor_id c);
                     c2 = c\<lparr>bt_flags := bt_flags c - {BT_CURSOR_FLAG_COUPLED}\<rparr>
                 in if node_left node = 0 then Some (HAM_CURSOR_IS_NIL, db2, c2)
                    else (case db_fetch_page db2 (node_left node) of
                            (None, db3) \<Rightarrow> Some (db_error db3, db3, c2)
                          | (Some (a, pg1), db3) \<Rightarrow>
                              (case couple_to db3 c2 a (of_nat (btree_node_get_count node) - 1) of
                                 (db4, c3) \<Rightarrow> Some (HAM_SUCCESS, db4, c3)))))"

text \<open>
  \<open>bt_cursor_move\<close>, the public entry point.  \<open>want_key\<close> and \<open>want_record\<close> say whether
  the caller passed a key and a record to fill.  After a successful move the entry under
  the cursor is read; a cursor that is not coupled to a stored leaf page and a valid index
  at that point violates the assertions of the source (\<open>None\<close>).  The in-use counter of
  the page is incremented before the reads and decremented after them on every path, so
  it is left out.
\<close>

definition rewrite_nil_flags :: "ham_bt_cursor_t \<Rightarrow> move_flag set \<Rightarrow> move_flag set" where
  "rewrite_nil_flags c flags =
     (if bt_cursor_is_nil c
      then (if HAM_CURSOR_NEXT \<in> flags
            then insert HAM_CURSOR_FIRST (flags - {HAM_CURSOR_NEXT})
            else if HAM_CURSOR_PREVIOUS \<in> flags
            then insert HAM_CURSOR_LAST (flags - {HAM_CURSOR_PREVIOUS})
            else flags)
      else flags)"

definition dispatch_move :: "bt_env \<Rightarrow> ham_db_t \<Rightarrow> ham_bt_cursor_t \<Rightarrow> move_flag set
    \<Rightarrow> (ham_status_t \<times> ham_db_t \<times> ham_bt_cursor_t) option" where
  "dispatch_move env db c flags =
     (if HAM_CURSOR_FIRST \<in> flags then my_move_first db c
      else if HAM_CURSOR_LAST \<in> flags then my_move_last db c
      else if HAM_CURSOR_NEXT \<in> flags then my_move_next env db c
      else if HAM_CURSOR_PREVIOUS \<in> flags then my_move_previous env db c
      else Some (HAM_SUCCESS, db, c))"

definition read_entry :: "bt_env \<Rightarrow> bool \<Rightarrow> ham_db_t \<Rightarrow> ham_bt_cursor_t \<Rightarrow> bool \<Rightarrow> bool
    \<Rightarrow> (ham_status_t \<times> ham_db_t \<times> ham_bt_cursor_t \<times> byte list option \<times> byte list option) option" where
  "read_entry env local_txn db c want_key want_record =
     (if BT_CURSOR_FLAG_COUPLED \<notin> bt_flags c then None
      else case db_pages db (coupled_page c) of
        None \<Rightarrow> None
      | Some pg \<Rightarrow>
          if \<not> node_is_leaf (page_node pg) then None
          else if \<not> unat (coupled_index c) < btree_node_get_count (page_node pg) then None
          else
            let entry = node_entries (page_node pg) ! unat (coupled_index c);
                (st1, key_out) = (if want_key
                                  then (case util_read_key env db entry of (s, k) \<Rightarrow> (s, Some k))
                                  else (HAM_SUCCESS, None))
            in if st1 \<noteq> HAM_SUCCESS
               then Some (st1, if local_txn then ham_txn_abort env db else db, c, None, None)
               else
                 let (st2, record_out) =
                       (if want_record
                        then (case util_read_record env db entry of (s, r) \<Rightarrow> (s, Some r))
                        else (HAM_SUCCESS, None))
                 in if st2 \<noteq> HAM_SUCCESS
                    then Some (st2, if local_txn then ham_txn_abort env db else db, c, key_out, None)
                    else if local_txn
                    then (case ham_txn_commit env db of (st3, db1) \<Rightarrow> Some (st3, db1, c, key_out, record_out))
                    else Some (HAM_SUCCESS, db, c, key_out, record_out))"

definition bt_cursor_move :: "bt_env \<Rightarrow> ham_db_t \<Rightarrow> ham_bt_cursor_t \<Rightarrow> bool \<Rightarrow> bool \<Rightarrow> move_flag set
    \<Rightarrow> (ham_status_t \<times> ham_db_t \<times> ham_bt_cursor_t \<times> byte list option \<times> byte list option) option" where
  "bt_cursor_move env db0 c0 want_key want_record flags0 =
     (if \<not> db_backend db0 then Some (HAM_INV_INDEX, db0, c0, None, None)
      else let local_txn = \<not> db_txn db0 in
      case (if local_txn then ham_txn_begin env db0 else (HAM_SUCCESS, db0)) of (st0, db1) \<Rightarrow>
      if st0 \<noteq> HAM_SUCCESS then Some (st0, db1, c0, None, None)
      else let flags = rewrite_nil_flags c0 flags0 in
      case dispatch_move env db1 c0 flags of
        None \<Rightarrow> None
      | Some (st, db2, c) \<Rightarrow>
          if st \<noteq> HAM_SUCCESS
          then Some (st, if local_txn then ham_txn_abort env db2 else db2, c, None, None)
          else read_entry env local_txn db2 c want_key want_record)"

subsection \<open>A small tree\<close>

text \<open>
  An index page at \<open>0x3000\<close> over two leaves: the leaf at \<open>0x1000\<close> holds the keys 1 and
  2, its right sibling at \<open>0x2000\<close> holds the key 3.  The collaborators of the example
  always succeed.
\<close>

definition example_leaf1 :: ham_page_t where
  "example_leaf1 =
     \<lparr>page_node = \<lparr>node_entries = [\<lparr>key_data = [1], key_ptr = 0\<rparr>, \<lparr>key_data = [2], key_ptr = 0\<rparr>],
                   node_is_leaf = True, node_ptr_left = 0, node_left = 0, node_right = 0x2000\<rparr>,
      page_cursors = []\<rparr>"

definition example_leaf2 :: ham_page_t where
  "example_leaf2 =
     \<lparr>page_node = \<lparr>node_entries = [\<lparr>key_data = [3], key_ptr = 0\<rparr>],
                   node_is_leaf = True, node_ptr_left = 0, node_left = 0x1000, node_right = 0\<rparr>,
      page_cursors = []\<rparr>"

definition example_root :: ham_page_t where
  "example_root =
     \<lparr>page_node = \<lparr>node_entries = [\<lparr>key_data = [3], key_ptr = 0x2000\<rparr>],
                   node_is_leaf = False, node_ptr_left = 0x1000, node_left = 0, node_right = 0\<rparr>,
      page_cursors = []\<rparr>"

definition example_db :: ham_db_t where
  "example_db =
     \<lparr>db_pages = [0x1000 \<mapsto> example_leaf1, 0x2000 \<mapsto> example_leaf2, 0x3000 \<mapsto> example_root],
      db_error = HAM_SUCCESS, db_txn = True, db_backend = True, btree_rootpage = 0x3000\<rparr>"

definition example_env :: bt_env where
  "example_env =
     \<lparr>ham_txn_begin = (\<lambda>db. (HAM_SUCCESS, db\<lparr>db_txn := True\<rparr>)),
      ham_txn_commit = (\<lambda>db. (HAM_SUCCESS, db\<lparr>db_txn := False\<rparr>)),
      ham_txn_abort = (\<lambda>db. db\<lparr>db_txn := False\<rparr>),
      btree_find_cursor = (\<lambda>db c k. (HAM_KEY_NOT_FOUND, db, c)),
      util_copy_key = (\<lambda>db k. (Some k, db)),
      util_read_key = (\<lambda>db e. (HAM_SUCCESS, key_data e)),
      util_read_record = (\<lambda>db e. (HAM_SUCCESS, []))\<rparr>"

definition nil_cursor :: ham_bt_cursor_t where
  "nil_cursor =
     \<lparr>cursor_id = 7, bt_flags = {}, coupled_page = 0, coupled_index = 0, uncoupled_key = None\<rparr>"

definition cursor_at :: "64 word \<Rightarrow> 32 word \<Rightarrow> ham_bt_cursor_t" where
  "cursor_at address idx =
     \<lparr>cursor_id = 7, bt_flags = {BT_CURSOR_FLAG_COUPLED}, coupled_page = address,
      coupled_index = idx, uncoupled_key = None\<rparr>"

text \<open>What a caller observes of a move: the status and where the cursor stands.\<close>

definition cursor_position :: "ham_bt_cursor_t \<Rightarrow> (64 word \<times> 32 word) option" where
  "cursor_position c =
     (if BT_CURSOR_FLAG_COUPLED \<in> bt_flags c then Some (coupled_page c, coupled_index c) else None)"

definition move_outcome :: "(ham_status_t \<times> ham_db_t \<times> ham_bt_cursor_t) option
    \<Rightarrow> (ham_status_t \<times> (64 word \<times> 32 word) option) option" where
  "move_outcome r = map_option (\<lambda>(st, db, c). (st, cursor_position c)) r"

subsection \<open>Properties of the cursor primitives\<close>

text \<open>
  The leaf that \<open>my_move_first\<close> reaches lies on the path of left-most child pointers
  from the root: it holds the smallest key of the tree.
\<close>

inductive leftmost_path :: "(64 word \<rightharpoonup> ham_page_t) \<Rightarrow> 64 word \<Rightarrow> 64 word \<Rightarrow> bool"
  for pages where
  leaf: "pages a = Some pg \<Longrightarrow> node_is_leaf (page_node pg) \<Longrightarrow> leftmost_path pages a a"
| child: "pages a = Some pg \<Longrightarrow> \<not> node_is_leaf (page_node pg) \<Longrightarrow>
     leftmost_path pages (node_ptr_left (page_node pg)) b \<Longrightarrow> leftmost_path pages a b"

text \<open>The database a move works on: the one \<open>ham_txn_begin\<close> returns when the move opens a
  local transaction.\<close>

definition db_after_begin :: "bt_env \<Rightarrow> ham_db_t \<Rightarrow> ham_db_t" where
  "db_after_begin env db = (if db_txn db then db else snd (ham_txn_begin env db))"

lemma descend_leftmost_success:
  assumes "descend_leftmost db a pg = Some r" "fst r = HAM_SUCCESS" "db_pages db a = Some pg"
  shows "leftmost_path (db_pages db) a (fst (snd (snd r))) \<and> fst (snd r) = db
     \<and> db_pages db (fst (snd (snd r))) = Some (snd (snd (snd r)))
     \<and> btree_node_get_count (page_node (snd (snd (snd r)))) \<noteq> 0"
  using assms
proof (induction rule: descend_leftmost.raw_induct[rotated 1, consumes 1])
  case (1 descend db a pg r)
  show ?case
  proof (cases "btree_node_get_count (page_node pg) = 0")
    case True
    with 1 show ?thesis by auto
  next
    case nz: False
    show ?thesis
    proof (cases "node_is_leaf (page_node pg)")
      case True
      with 1 nz show ?thesis by (auto intro: leftmost_path.leaf)
    next
      case nl: False
      show ?thesis
      proof (cases "db_pages db (node_ptr_left (page_node pg))")
        case None
        with 1 nz nl show ?thesis by (auto simp: db_fetch_page_def Let_def split: if_splits)
      next
        case (Some pg1)
        with 1(2) nz nl have d: "descend db (node_ptr_left (page_node pg)) pg1 = Some r"
          by (simp add: db_fetch_page_def)
        from 1(1)[OF d 1(3) Some] 1(4) nl show ?thesis
          by (auto intro: leftmost_path.child)
      qed
    qed
  qed
qed

lemma my_move_first_position:
  assumes "my_move_first db c = Some (HAM_SUCCESS, db', c')" "bt_cursor_is_nil c"
  shows "\<exists>leaf. cursor_position c' = Some (leaf, 0) \<and> leftmost_path (db_pages db) (btree_rootpage db) leaf"
proof -
  let ?db = "db\<lparr>db_error := HAM_SUCCESS\<rparr>"
  from assms(2) have nil: "my_set_to_nil db c = (HAM_SUCCESS, db, c)"
    by (simp add: my_set_to_nil_def bt_cursor_is_nil_def)
  from assms(1) nil obtain pg where pg: "db_pages db (btree_rootpage db) = Some pg"
    by (auto simp: my_move_first_def db_fetch_page_def Let_def split: if_splits option.splits)
  from assms(1) nil pg obtain r where r: "descend_leftmost ?db (btree_rootpage db) pg = Some r"
      and st: "fst r = HAM_SUCCESS"
      and c': "c' = snd (couple_to (fst (snd r)) c (fst (snd (snd r))) 0)"
    by (auto simp: my_move_first_def db_fetch_page_def Let_def split: if_splits option.splits prod.splits)
  from descend_leftmost_success [OF r st] pg
  have "leftmost_path (db_pages db) (btree_rootpage db) (fst (snd (snd r)))" by simp
  moreover from c' have "cursor_position c' = Some (fst (snd (snd r)), 0)"
    by (simp add: couple_to_def cursor_position_def)
  ultimately show ?thesis by blast
qed

lemma my_move_next_nil:
  "bt_cursor_is_nil c \<Longrightarrow> my_move_next env db c = Some (HAM_CURSOR_IS_NIL, db, c)"
  by (simp add: my_move_next_def bt_cursor_is_nil_def)

lemma my_move_previous_nil:
  "bt_cursor_is_nil c \<Longrightarrow> my_move_previous env db c = Some (HAM_CURSOR_IS_NIL, db, c)"
  by (simp add: my_move_previous_def bt_cursor_is_nil_def)

text \<open>The transitions of \<open>my_move_next\<close> from a coupled cursor.\<close>

lemma my_move_next_in_page:
  assumes "BT_CURSOR_FLAG_COUPLED \<in> bt_flags c" "BT_CURSOR_FLAG_UNCOUPLED \<notin> bt_flags c"
      "db_pages db (coupled_page c) = Some pg"
      "unat (coupled_index c + 1) < btree_node_get_count (page_node pg)"
  shows "my_move_next env db c
       = Some (HAM_SUCCESS, db\<lparr>db_error := HAM_SUCCESS\<rparr>, c\<lparr>coupled_index := coupled_index c + 1\<rparr>)"
  using assms by (simp add: my_move_next_def)

lemma my_move_next_no_sibling:
  assumes "BT_CURSOR_FLAG_COUPLED \<in> bt_flags c" "BT_CURSOR_FLAG_UNCOUPLED \<notin> bt_flags c"
      "db_pages db (coupled_page c) = Some pg"
      "\<not> unat (coupled_index c + 1) < btree_node_get_count (page_node pg)"
      "node_right (page_node pg) = 0"
  shows "my_move_next env db c
       = Some (HAM_CURSOR_IS_NIL,
               page_remove_cursor (db\<lparr>db_error := HAM_SUCCESS\<rparr>) (coupled_page c) (cursor_id c),
               c\<lparr>bt_flags := bt_flags c - {BT_CURSOR_FLAG_COUPLED}\<rparr>)"
  using assms by (simp add: my_move_next_def Let_def)

lemma my_move_next_sibling:
  assumes "BT_CURSOR_FLAG_COUPLED \<in> bt_flags c" "BT_CURSOR_FLAG_UNCOUPLED \<notin> bt_flags c"
      "db_pages db (coupled_page c) = Some pg"
      "\<not> unat (coupled_index c + 1) < btree_node_get_count (page_node pg)"
      "node_right (page_node pg) \<noteq> 0"
      "db_pages db (node_right (page_node pg)) = Some pg1"
  shows "move_outcome (my_move_next env db c) = Some (HAM_SUCCESS, Some (node_right (page_node pg), 0))"
  using assms
  by (auto simp: my_move_next_def Let_def move_outcome_def db_fetch_page_def page_remove_cursor_def
      couple_to_def cursor_position_def split: option.splits)

text \<open>The transitions of \<open>my_move_previous\<close> from a coupled cursor.  On the way to the left
  sibling the new index is computed from the entry count of the page the cursor leaves.\<close>

lemma my_move_previous_in_page:
  assumes "BT_CURSOR_FLAG_COUPLED \<in> bt_flags c" "BT_CURSOR_FLAG_UNCOUPLED \<notin> bt_flags c"
      "db_pages db (coupled_page c) = Some pg" "coupled_index c \<noteq> 0"
  shows "my_move_previous env db c
       = Some (HAM_SUCCESS, db\<lparr>db_error := HAM_SUCCESS\<rparr>, c\<lparr>coupled_index := coupled_index c - 1\<rparr>)"
  using assms by (simp add: my_move_previous_def)

lemma my_move_previous_no_sibling:
  assumes "BT_CURSOR_FLAG_COUPLED \<in> bt_flags c" "BT_CURSOR_FLAG_UNCOUPLED \<notin> bt_flags c"
      "db_pages db (coupled_page c) = Some pg" "coupled_index c = 0"
      "node_left (page_node pg) = 0"
  shows "my_move_previous env db c
       = Some (HAM_CURSOR_IS_NIL,
               page_remove_cursor (db\<lparr>db_error := HAM_SUCCESS\<rparr>) (coupled_page c) (cursor_id c),
               c\<lparr>bt_flags := bt_flags c - {BT_CURSOR_FLAG_COUPLED}\<rparr>)"
  using assms by (simp add: my_move_previous_def Let_def)

lemma my_move_previous_sibling:
  assumes "BT_CURSOR_FLAG_COUPLED \<in> bt_flags c" "BT_CURSOR_FLAG_UNCOUPLED \<notin> bt_flags c"
      "db_pages db (coupled_page c) = Some pg" "coupled_index c = 0"
      "node_left (page_node pg) \<noteq> 0"
      "db_pages db (node_left (page_node pg)) = Some pg1"
  shows "move_outcome (my_move_previous env db c)
       = Some (HAM_SUCCESS,
               Some (node_left (page_node pg), of_nat (btree_node_get_count (page_node pg)) - 1))"
  using assms
  by (auto simp: my_move_previous_def Let_def move_outcome_def db_fetch_page_def page_remove_cursor_def
      couple_to_def cursor_position_def split: option.splits)

lemma page_remove_cursor_cursors:
  "db_pages db a = Some pg \<Longrightarrow>
   map_option page_cursors (db_pages (page_remove_cursor db a cid) a) = Some (remove1 cid (page_cursors pg))"
  by (simp add: page_remove_cursor_def)

text \<open>An uncoupled cursor is coupled first, by a \<open>find\<close> on a copy of the cached key.\<close>

lemma bt_cursor_couple_finds_cached_key:
  assumes "db_txn db" "uncoupled_key c = Some cached" "util_copy_key env db cached = (Some k, db1)"
  shows "bt_cursor_couple env db c = Some (bt_cursor_find env db1 c k)"
  using assms by (simp add: bt_cursor_couple_def split: prod.split)

lemma my_move_next_uncoupled:
  assumes "BT_CURSOR_FLAG_UNCOUPLED \<in> bt_flags c" "bt_cursor_couple env db c = Some (st, db1, c1)"
      "st \<noteq> HAM_SUCCESS"
  shows "my_move_next env db c = Some (st, db1, c1)"
  using assms by (simp add: my_move_next_def)

text \<open>
  Claim C8 (next/previous transitions of the B-tree cursor).  The claim says that
  \<open>previous\<close>, leaving a page through its left sibling pointer, couples the cursor to the
  last entry of the sibling page.  In the example tree the cursor stands on the only
  entry of the leaf at \<open>0x2000\<close>; its left sibling at \<open>0x1000\<close> holds two entries, so the
  last one has index 1.  \<open>my_move_previous\<close> couples the cursor to index 0 of the sibling:
  the index is the entry count of the page it left, minus one.
\<close>

theorem my_move_previous_uses_count_of_left_page:
  "btree_node_get_count (page_node example_leaf1) = 2
   \<and> db_pages example_db 0x1000 = Some example_leaf1
   \<and> node_left (page_node example_leaf2) = 0x1000
   \<and> move_outcome (my_move_previous example_env example_db (cursor_at 0x2000 0))
       = Some (HAM_SUCCESS, Some (0x1000, 0))"
  by (simp add: move_outcome_def my_move_previous_def cursor_at_def example_db_def
     db_fetch_page_def example_leaf2_def example_leaf1_def btree_node_get_count_def
     couple_to_def cursor_position_def page_remove_cursor_def)

lemma rewrite_nil_flags_next:
  "bt_cursor_is_nil c \<Longrightarrow> HAM_CURSOR_NEXT \<in> flags \<Longrightarrow>
   dispatch_move env db c (rewrite_nil_flags c flags) = my_move_first db c"
  by (simp add: rewrite_nil_flags_def dispatch_move_def)

lemma rewrite_nil_flags_previous:
  "bt_cursor_is_nil c \<Longrightarrow> HAM_CURSOR_NEXT \<notin> flags \<Longrightarrow> HAM_CURSOR_FIRST \<notin> flags \<Longrightarrow>
   HAM_CURSOR_PREVIOUS \<in> flags \<Longrightarrow>
   dispatch_move env db c (rewrite_nil_flags c flags) = my_move_last db c"
  by (simp add: rewrite_nil_flags_def dispatch_move_def)

lemma rewrite_nil_flags_first:
  "dispatch_move env db c (rewrite_nil_flags c {HAM_CURSOR_FIRST}) = my_move_first db c"
  by (simp add: rewrite_nil_flags_def dispatch_move_def)

lemma rewrite_nil_flags_last:
  "dispatch_move env db c (rewrite_nil_flags c {HAM_CURSOR_LAST}) = my_move_last db c"
  by (simp add: rewrite_nil_flags_def dispatch_move_def)

lemma bt_cursor_move_dispatch_eq:
  assumes "\<And>db1. dispatch_move env db1 c (rewrite_nil_flags c f1) = dispatch_move env db1 c (rewrite_nil_flags c f2)"
  shows "bt_cursor_move env db c wk wr f1 = bt_cursor_move env db c wk wr f2"
  unfolding bt_cursor_move_def Let_def
  by (simp add: assms split: prod.split)

lemma bt_cursor_move_keeps_cursor:
  "bt_cursor_move env db c wk wr flags = Some (HAM_SUCCESS, db', c', k, r) \<Longrightarrow>
   \<exists>db2. dispatch_move env (db_after_begin env db) c (rewrite_nil_flags c flags) = Some (HAM_SUCCESS, db2, c')"
  unfolding bt_cursor_move_def read_entry_def db_after_begin_def Let_def
  by (auto split: if_splits option.splits prod.splits)

lemma bt_move_first_example:
  "map_option (\<lambda>(st, db, c, k, r). (st, cursor_position c, k))
     (bt_cursor_move example_env example_db nil_cursor True False {HAM_CURSOR_FIRST})
   = Some (HAM_SUCCESS, Some (0x1000, 0), Some [1])"
  by (simp add: bt_cursor_move_def rewrite_nil_flags_def dispatch_move_def bt_cursor_is_nil_def
     my_move_first_def my_set_to_nil_def nil_cursor_def example_db_def
     db_fetch_page_def descend_leftmost.simps example_root_def example_leaf1_def btree_node_get_count_def
     couple_to_def cursor_position_def read_entry_def page_add_cursor_def example_env_def)

text \<open>
  Claim C9 (the public entry point redirects a nil cursor).  For a nil cursor,
  \<open>bt_cursor_move\<close> with \<open>HAM_CURSOR_NEXT\<close> among its flags does what it does with
  \<open>HAM_CURSOR_FIRST\<close> alone, and with \<open>HAM_CURSOR_PREVIOUS\<close> (and neither \<open>NEXT\<close> nor
  \<open>FIRST\<close>) what it does with \<open>HAM_CURSOR_LAST\<close> alone.  Whenever such a \<open>NEXT\<close> move
  succeeds, the cursor stands on index 0 of the leaf at the end of the left-most path
  from the root, that is on the first key; the primitives \<open>my_move_next\<close> and
  \<open>my_move_previous\<close> themselves return \<open>HAM_CURSOR_IS_NIL\<close> for the same cursor.
\<close>

theorem bt_cursor_move_nil_redirect:
  assumes "bt_cursor_is_nil c"
  shows "(HAM_CURSOR_NEXT \<in> flags \<longrightarrow>
            bt_cursor_move env db c wk wr flags = bt_cursor_move env db c wk wr {HAM_CURSOR_FIRST})
       \<and> (HAM_CURSOR_NEXT \<notin> flags \<and> HAM_CURSOR_FIRST \<notin> flags \<and> HAM_CURSOR_PREVIOUS \<in> flags \<longrightarrow>
            bt_cursor_move env db c wk wr flags = bt_cursor_move env db c wk wr {HAM_CURSOR_LAST})
       \<and> (HAM_CURSOR_NEXT \<in> flags \<and> bt_cursor_move env db c wk wr flags = Some (HAM_SUCCESS, db', c', k, r) \<longrightarrow>
            (\<exists>leaf. cursor_position c' = Some (leaf, 0)
               \<and> leftmost_path (db_pages (db_after_begin env db)) (btree_rootpage (db_after_begin env db)) leaf))
       \<and> my_move_next env db c = Some (HAM_CURSOR_IS_NIL, db, c)
       \<and> my_move_previous env db c = Some (HAM_CURSOR_IS_NIL, db, c)"
proof (intro conjI impI)
  assume "HAM_CURSOR_NEXT \<in> flags"
  with assms show "bt_cursor_move env db c wk wr flags = bt_cursor_move env db c wk wr {HAM_CURSOR_FIRST}"
    by (intro bt_cursor_move_dispatch_eq) (simp add: rewrite_nil_flags_next rewrite_nil_flags_first)
next
  assume "HAM_CURSOR_NEXT \<notin> flags \<and> HAM_CURSOR_FIRST \<notin> flags \<and> HAM_CURSOR_PREVIOUS \<in> flags"
  with assms show "bt_cursor_move env db c wk wr flags = bt_cursor_move env db c wk wr {HAM_CURSOR_LAST}"
    by (intro bt_cursor_move_dispatch_eq) (simp add: rewrite_nil_flags_previous rewrite_nil_flags_last)
next
  assume a: "HAM_CURSOR_NEXT \<in> flags \<and> bt_cursor_move env db c wk wr flags = Some (HAM_SUCCESS, db', c', k, r)"
  then obtain db2 where
    "dispatch_move env (db_after_begin env db) c (rewrite_nil_flags c flags) = Some (HAM_SUCCESS, db2, c')"
    using bt_cursor_move_keeps_cursor by blast
  with a assms have "my_move_first (db_after_begin env db) c = Some (HAM_SUCCESS, db2, c')"
    by (simp add: rewrite_nil_flags_next)
  from my_move_first_position [OF this assms]
  show "\<exists>leaf. cursor_position c' = Some (leaf, 0)
      \<and> leftmost_path (db_pages (db_after_begin env db)) (btree_rootpage (db_after_begin env db)) leaf" .
next
  from assms show "my_move_next env db c = Some (HAM_CURSOR_IS_NIL, db, c)"
    by (rule my_move_next_nil)
next
  from assms show "my_move_previous env db c = Some (HAM_CURSOR_IS_NIL, db, c)"
    by (rule my_move_previous_nil)
qed

theorem bt_cursor_move_nil_redirect_witness:
  "bt_cursor_is_nil nil_cursor \<and> HAM_CURSOR_NEXT \<in> {HAM_CURSOR_NEXT}
   \<and> map_option (\<lambda>(st, db, c, k, r). (st, cursor_position c, k))
        (bt_cursor_move example_env example_db nil_cursor True False {HAM_CURSOR_NEXT})
     = Some (HAM_SUCCESS, Some (0x1000, 0), Some [1])
   \<and> my_move_next example_env example_db nil_cursor = Some (HAM_CURSOR_IS_NIL, example_db, nil_cursor)"
proof -
  have n: "bt_cursor_is_nil nil_cursor"
    by (simp add: bt_cursor_is_nil_def nil_cursor_def)
  from bt_cursor_move_nil_redirect [OF n, of "{HAM_CURSOR_NEXT}" example_env example_db True False]
  show ?thesis
    using n by (simp add: bt_move_first_example)
qed

section \<open>The merged cursor (cursor.c)\<close>

subsection \<open>The duplicate cache\<close>

text \<open>
  A line of the duplicate cache refers either to a duplicate of the B-tree key, by its
  index in the duplicate table, or to an operation of the transaction tree.  The cache is
  the array \<open>elements[0 .. count - 1]\<close> (a list; \<open>count\<close> is its length) and the capacity of
  the allocation.  \<open>ham_size_t\<close> is an unsigned 32-bit integer: \<open>capacity - 1\<close> and
  \<open>capacity * 2\<close> wrap around, which the model writes out.  Whether \<open>allocator_realloc\<close>
  succeeds for a capacity is the parameter \<open>realloc_ok\<close>.  A write outside the allocation,
  or a \<open>memmove\<close> of a negative length, has no return value in the model (\<open>None\<close>).
\<close>

datatype txn_op_flag = TXN_OP_INSERT | TXN_OP_INSERT_OW | TXN_OP_INSERT_DUP | TXN_OP_ERASE | TXN_OP_NOP

datatype dupe_flag =
    HAM_DUPLICATE_INSERT_FIRST
  | HAM_DUPLICATE_INSERT_BEFORE
  | HAM_DUPLICATE_INSERT_AFTER
  | HAM_DUPLICATE_INSERT_LAST

record txn_op_t =
  op_id :: nat
  op_flags :: "txn_op_flag set"
  op_orig_flags :: "dupe_flag set"
  op_referenced_dupe :: "32 word"
  op_txn_aborted :: bool

datatype dupecache_line_t = Btree_line nat | Txn_line txn_op_t

record dupecache_t =
  dc_elements :: "dupecache_line_t list"
  dc_capacity :: nat

definition dupecache_get_count :: "dupecache_t \<Rightarrow> nat" where
  "dupecache_get_count c = length (dc_elements c)"

definition dupecache_clear :: "dupecache_t \<Rightarrow> dupecache_t" where
  "dupecache_clear c = \<lparr>dc_elements = [], dc_capacity = 0\<rparr>"

definition dupecache_reset :: "dupecache_t \<Rightarrow> dupecache_t" where
  "dupecache_reset c = c\<lparr>dc_elements := []\<rparr>"

definition dupecache_resize :: "(nat \<Rightarrow> bool) \<Rightarrow> dupecache_t \<Rightarrow> nat \<Rightarrow> ham_status_t \<times> dupecache_t" where
  "dupecache_resize realloc_ok c capacity =
     (if capacity = 0 then (HAM_SUCCESS, dupecache_clear c)
      else if realloc_ok capacity then (HAM_SUCCESS, c\<lparr>dc_capacity := capacity\<rparr>)
      else (HAM_OUT_OF_MEMORY, c))"

definition dupecache_create :: "(nat \<Rightarrow> bool) \<Rightarrow> nat \<Rightarrow> ham_status_t \<times> dupecache_t" where
  "dupecache_create realloc_ok capacity =
     dupecache_resize realloc_ok \<lparr>dc_elements = [], dc_capacity = 0\<rparr> (if capacity = 0 then 8 else capacity)"

definition needs_resize :: "dupecache_t \<Rightarrow> bool" where
  "needs_resize c =
     (dupecache_get_count c \<ge> (if dc_capacity c = 0 then 2 ^ 32 - 1 else dc_capacity c - 1))"

definition dupecache_append :: "(nat \<Rightarrow> bool) \<Rightarrow> dupecache_t \<Rightarrow> dupecache_line_t
    \<Rightarrow> (ham_status_t \<times> dupecache_t) option" where
  "dupecache_append realloc_ok c dupe =
     (case (if needs_resize c then dupecache_resize realloc_ok c ((dc_capacity c * 2) mod 2 ^ 32)
            else (HAM_SUCCESS, c)) of
        (st, c1) \<Rightarrow>
          if st \<noteq> HAM_SUCCESS then Some (st, c1)
          else if dupecache_get_count c1 < dc_capacity c1
          then Some (HAM_SUCCESS, c1\<lparr>dc_elements := dc_elements c1 @ [dupe]\<rparr>)
          else None)"

definition dupecache_insert :: "(nat \<Rightarrow> bool) \<Rightarrow> dupecache_t \<Rightarrow> nat \<Rightarrow> dupecache_line_t
    \<Rightarrow> (ham_status_t \<times> dupecache_t) option" where
  "dupecache_insert realloc_ok c position dupe =
     (if position = dupecache_get_count c then dupecache_append realloc_ok c dupe
      else case (if needs_resize c then dupecache_resize realloc_ok c ((dc_capacity c * 2) mod 2 ^ 32)
                 else (HAM_SUCCESS, c)) of
        (st, c1) \<Rightarrow>
          if st \<noteq> HAM_SUCCESS then Some (st, c1)
          else if position < dupecache_get_count c1 \<and> dupecache_get_count c1 < dc_capacity c1
          then Some (HAM_SUCCESS,
                     c1\<lparr>dc_elements := take position (dc_elements c1) @ dupe # drop position (dc_elements c1)\<rparr>)
          else None)"

definition dupecache_erase :: "dupecache_t \<Rightarrow> nat \<Rightarrow> (ham_status_t \<times> dupecache_t) option" where
  "dupecache_erase c position =
     (if dupecache_get_count c = 0 then None
      else if position < dupecache_get_count c - 1
      then Some (HAM_SUCCESS, c\<lparr>dc_elements := take position (dc_elements c) @ drop (position + 1) (dc_elements c)\<rparr>)
      else Some (HAM_SUCCESS, c\<lparr>dc_elements := butlast (dc_elements c)\<rparr>))"

subsection \<open>The cursor and its collaborators\<close>

text \<open>
  A node of the transaction tree holds a key and its operations, oldest first.  The
  transaction cursor is nil or coupled to an operation; the node of that operation
  (\<open>txn_op_get_node\<close>) is kept beside it.  The merged cursor owns a B-tree cursor (the
  cursor of the previous section), a transaction cursor, the duplicate cache and its
  1-based index, and the mark that says which side it is coupled to.
\<close>

record txn_opnode_t =
  opnode_key :: "byte list"
  opnode_ops :: "txn_op_t list"

record txn_cursor_t =
  txnc_coupled_op :: "txn_op_t option"
  txnc_node :: "txn_opnode_t option"

datatype cursor_part = CURSOR_BTREE | CURSOR_TXN

datatype lastop_t = LASTOP_NONE | LASTOP_NEXT | LASTOP_PREVIOUS | CURSOR_LOOKUP_INSERT

record ham_cursor_t =
  cur_btree :: ham_bt_cursor_t
  cur_btree_dupe_id :: nat
  cur_txn :: txn_cursor_t
  cur_dupecache :: dupecache_t
  cur_dupecache_index :: nat
  cur_coupled_to_txnop :: bool
  cur_lastop :: lastop_t

text \<open>
  The collaborators of the merged cursor: the moves and lookups of the transaction
  cursor, the approximate lookup of the B-tree cursor (with the mark of an approximate
  match it leaves in the key), the duplicate table of the B-tree key under the cursor
  (its status, and the number of entries when there is a table), the key a clone of the
  cursor caches when it is uncoupled, the key comparison, the allocator, and whether
  the database has duplicates enabled.  The B-tree cursor is moved by \<open>bt_cursor_move\<close>,
  which \<open>cursor.c\<close> calls \<open>btree_cursor_move\<close>.
\<close>

record cursor_env =
  env_bt :: bt_env
  txn_cursor_move :: "txn_cursor_t \<Rightarrow> move_flag set \<Rightarrow> ham_status_t \<times> txn_cursor_t"
  txn_cursor_find :: "txn_cursor_t \<Rightarrow> byte list \<Rightarrow> move_flag set \<Rightarrow> ham_status_t \<times> txn_cursor_t \<times> bool"
  btree_cursor_find :: "ham_db_t \<Rightarrow> ham_bt_cursor_t \<Rightarrow> byte list \<Rightarrow> move_flag set
      \<Rightarrow> ham_status_t \<times> ham_db_t \<times> ham_bt_cursor_t \<times> bool"
  btree_cursor_get_duplicate_table :: "ham_db_t \<Rightarrow> ham_bt_cursor_t \<Rightarrow> ham_status_t \<times> nat option"
  clone_uncoupled_key :: "ham_db_t \<Rightarrow> ham_bt_cursor_t \<Rightarrow> ham_status_t \<times> byte list"
  db_compare_keys :: "byte list \<Rightarrow> byte list \<Rightarrow> int"
  realloc_ok :: "nat \<Rightarrow> bool"
  enable_duplicates :: bool

definition cursor_is_nil :: "ham_cursor_t \<Rightarrow> cursor_part \<Rightarrow> bool" where
  "cursor_is_nil cursor what =
     (case what of
        CURSOR_BTREE \<Rightarrow> bt_cursor_is_nil (cur_btree cursor)
      | CURSOR_TXN \<Rightarrow> txnc_coupled_op (cur_txn cursor) = None)"

definition cursor_set_to_nil_btree :: "ham_db_t \<Rightarrow> ham_cursor_t \<Rightarrow> ham_db_t \<times> ham_cursor_t" where
  "cursor_set_to_nil_btree db cursor =
     (case my_set_to_nil db (cur_btree cursor) of (st, db1, c1) \<Rightarrow> (db1, cursor\<lparr>cur_btree := c1\<rparr>))"

definition cursor_set_to_nil_txn :: "ham_cursor_t \<Rightarrow> ham_cursor_t" where
  "cursor_set_to_nil_txn cursor = cursor\<lparr>cur_txn := \<lparr>txnc_coupled_op = None, txnc_node = None\<rparr>\<rparr>"

definition approx_flags :: "move_flag set \<Rightarrow> move_flag set" where
  "approx_flags flags =
     (if CURSOR_SYNC_ONLY_EQUAL_KEY \<notin> flags
      then insert (if HAM_CURSOR_NEXT \<in> flags then HAM_FIND_GEQ_MATCH else HAM_FIND_LEQ_MATCH) flags
      else flags)"

text \<open>
  \<open>cursor_sync\<close> returns the status, \<open>*equal_keys\<close>, the database and the cursor.  In the
  branch for a nil transaction cursor the source declares a second variable \<open>st\<close> that
  hides the one returned at \<open>bail\<close>, so that branch always returns 0.
\<close>

definition cursor_sync :: "cursor_env \<Rightarrow> ham_db_t \<Rightarrow> ham_cursor_t \<Rightarrow> move_flag set
    \<Rightarrow> (ham_status_t \<times> bool \<times> ham_db_t \<times> ham_cursor_t) option" where
  "cursor_sync env db cursor flags =
     (if cursor_is_nil cursor CURSOR_BTREE
      then (case txnc_coupled_op (cur_txn cursor) of
              None \<Rightarrow> Some (HAM_SUCCESS, False, db, cursor)
            | Some op1 \<Rightarrow>
                (case txnc_node (cur_txn cursor) of
                   None \<Rightarrow> None
                 | Some node \<Rightarrow>
                     (case btree_cursor_find env db (cur_btree cursor) (opnode_key node)
                             (insert CURSOR_SYNC_DONT_LOAD_KEY (approx_flags flags)) of
                        (st, db1, btc, approx) \<Rightarrow>
                          Some (st, st = HAM_SUCCESS \<and> \<not> approx, db1, cursor\<lparr>cur_btree := btc\<rparr>))))
      else if cursor_is_nil cursor CURSOR_TXN
      then (case clone_uncoupled_key env db (cur_btree cursor) of
              (st1, k) \<Rightarrow>
                if st1 \<noteq> HAM_SUCCESS then Some (HAM_SUCCESS, False, db, cursor)
                else (case txn_cursor_find env (cur_txn cursor) k
                             (insert CURSOR_SYNC_DONT_LOAD_KEY (approx_flags flags)) of
                        (st2, txnc, approx) \<Rightarrow>
                          Some (HAM_SUCCESS, st2 = HAM_SUCCESS \<and> \<not> approx, db, cursor\<lparr>cur_txn := txnc\<rparr>)))
      else Some (HAM_SUCCESS, False, db, cursor))"

subsection \<open>Rebuilding the duplicate cache\<close>

text \<open>
  \<open>append_btree_lines\<close> is the loop over the duplicate table, \<open>apply_txn_op\<close> the body of
  the loop over the operations of the transaction node, \<open>apply_txn_ops\<close> that loop, from
  the oldest operation to the newest.
\<close>

fun append_btree_lines :: "(nat \<Rightarrow> bool) \<Rightarrow> dupecache_t \<Rightarrow> nat list \<Rightarrow> (ham_status_t \<times> dupecache_t) option" where
  "append_btree_lines ok dc [] = Some (HAM_SUCCESS, dc)"
| "append_btree_lines ok dc (i # is) =
     (case dupecache_append ok dc (Btree_line i) of
        None \<Rightarrow> None
      | Some (st, dc1) \<Rightarrow> if st \<noteq> HAM_SUCCESS then Some (st, dc1) else append_btree_lines ok dc1 is)"

definition apply_txn_op :: "(nat \<Rightarrow> bool) \<Rightarrow> dupecache_t \<Rightarrow> txn_op_t \<Rightarrow> (ham_status_t \<times> dupecache_t) option" where
  "apply_txn_op ok dc op1 =
     (if op_txn_aborted op1 then Some (HAM_SUCCESS, dc)
      else if TXN_OP_INSERT \<in> op_flags op1
      then dupecache_append ok (dupecache_reset dc) (Txn_line op1)
      else if TXN_OP_INSERT_OW \<in> op_flags op1
      then (let ref = unat (op_referenced_dupe op1) in
            if ref \<noteq> 0
            then (if ref \<le> dc_capacity dc
                  then Some (HAM_SUCCESS,
                             dc\<lparr>dc_elements := (if ref \<le> dupecache_get_count dc
                                                 then (dc_elements dc)[ref - 1 := Txn_line op1]
                                                 else dc_elements dc)\<rparr>)
                  else None)
            else dupecache_append ok (dupecache_reset dc) (Txn_line op1))
      else if TXN_OP_INSERT_DUP \<in> op_flags op1
      then (let of1 = op_orig_flags op1;
                ref = op_referenced_dupe op1 - 1
            in if HAM_DUPLICATE_INSERT_FIRST \<in> of1 then dupecache_insert ok dc 0 (Txn_line op1)
               else if HAM_DUPLICATE_INSERT_BEFORE \<in> of1 then dupecache_insert ok dc (unat ref) (Txn_line op1)
               else if HAM_DUPLICATE_INSERT_AFTER \<in> of1
               then (if unat (ref + 1) \<ge> dupecache_get_count dc
                     then dupecache_append ok dc (Txn_line op1)
                     else dupecache_insert ok dc (unat (ref + 1)) (Txn_line op1))
               else dupecache_append ok dc (Txn_line op1))
      else if TXN_OP_ERASE \<in> op_flags op1
      then (let ref = unat (op_referenced_dupe op1) in
            if ref \<noteq> 0 then dupecache_erase dc (ref - 1)
            else Some (HAM_SUCCESS, dupecache_reset dc))
      else Some (HAM_SUCCESS, dc))"

fun apply_txn_ops :: "(nat \<Rightarrow> bool) \<Rightarrow> dupecache_t \<Rightarrow> txn_op_t list \<Rightarrow> (ham_status_t \<times> dupecache_t) option" where
  "apply_txn_ops ok dc [] = Some (HAM_SUCCESS, dc)"
| "apply_txn_ops ok dc (op1 # ops) =
     (case apply_txn_op ok dc op1 of
        None \<Rightarrow> None
      | Some (st, dc1) \<Rightarrow> if st \<noteq> HAM_SUCCESS then Some (st, dc1) else apply_txn_ops ok dc1 ops)"

text \<open>The three stages of \<open>cursor_update_dupecache\<close>: aligning a nil B-tree cursor when
  both sides are asked for, the lines of the B-tree, and the operations of the
  transaction node.\<close>

definition update_sync :: "cursor_env \<Rightarrow> ham_db_t \<Rightarrow> ham_cursor_t \<Rightarrow> cursor_part set
    \<Rightarrow> (ham_db_t \<times> ham_cursor_t) option" where
  "update_sync env db cursor what =
     (if CURSOR_BTREE \<in> what \<and> CURSOR_TXN \<in> what
         \<and> cursor_is_nil cursor CURSOR_BTREE \<and> \<not> cursor_is_nil cursor CURSOR_TXN
      then (case cursor_sync env db cursor {} of
              None \<Rightarrow> None
            | Some (st, equal_keys, db1, cursor1) \<Rightarrow>
                if \<not> equal_keys then Some (cursor_set_to_nil_btree db1 cursor1)
                else Some (db1, cursor1))
      else Some (db, cursor))"

definition update_btree :: "cursor_env \<Rightarrow> ham_db_t \<Rightarrow> ham_cursor_t \<Rightarrow> cursor_part set
    \<Rightarrow> (ham_status_t \<times> ham_cursor_t) option" where
  "update_btree env db cursor what =
     (if CURSOR_BTREE \<in> what \<and> \<not> cursor_is_nil cursor CURSOR_BTREE
      then (case btree_cursor_get_duplicate_table env db (cur_btree cursor) of
              (st, table) \<Rightarrow>
                if st \<noteq> HAM_SUCCESS \<and> st \<noteq> HAM_CURSOR_IS_NIL then Some (st, cursor)
                else (case table of
                        None \<Rightarrow> Some (HAM_SUCCESS, cursor)
                      | Some n \<Rightarrow>
                          (case append_btree_lines (realloc_ok env) (cur_dupecache cursor) [0..<n] of
                             None \<Rightarrow> None
                           | Some (st1, dc1) \<Rightarrow> Some (st1, cursor\<lparr>cur_dupecache := dc1\<rparr>))))
      else Some (HAM_SUCCESS, cursor))"

definition update_txn :: "cursor_env \<Rightarrow> ham_cursor_t \<Rightarrow> cursor_part set
    \<Rightarrow> (ham_status_t \<times> ham_cursor_t) option" where
  "update_txn env cursor what =
     (if CURSOR_TXN \<in> what \<and> \<not> cursor_is_nil cursor CURSOR_TXN
      then (case txnc_node (cur_txn cursor) of
              None \<Rightarrow> Some (HAM_SUCCESS, cursor)
            | Some node \<Rightarrow>
                (case apply_txn_ops (realloc_ok env) (cur_dupecache cursor) (opnode_ops node) of
                   None \<Rightarrow> None
                 | Some (st, dc1) \<Rightarrow> Some (st, cursor\<lparr>cur_dupecache := dc1\<rparr>)))
      else Some (HAM_SUCCESS, cursor))"

definition cursor_update_dupecache :: "cursor_env \<Rightarrow> ham_db_t \<Rightarrow> ham_cursor_t \<Rightarrow> cursor_part set
    \<Rightarrow> (ham_status_t \<times> ham_db_t \<times> ham_cursor_t) option" where
  "cursor_update_dupecache env db cursor0 what =
     (if dupecache_get_count (cur_dupecache cursor0) \<noteq> 0 then Some (HAM_SUCCESS, db, cursor0)
      else
        case (if dc_capacity (cur_dupecache cursor0) = 0
              then dupecache_create (realloc_ok env) 8
              else (HAM_SUCCESS, cur_dupecache cursor0)) of
          (st0, dc0) \<Rightarrow>
            if st0 \<noteq> HAM_SUCCESS then Some (st0, db, cursor0\<lparr>cur_dupecache := dc0\<rparr>)
            else
              (case update_sync env db (cursor0\<lparr>cur_dupecache := dc0\<rparr>) what of
                 None \<Rightarrow> None
               | Some (db1, cursor1) \<Rightarrow>
                   (case update_btree env db1 cursor1 what of
                      None \<Rightarrow> None
                    | Some (st1, cursor2) \<Rightarrow>
                        if st1 \<noteq> HAM_SUCCESS then Some (st1, db1, cursor2)
                        else (case update_txn env cursor2 what of
                                None \<Rightarrow> None
                              | Some (st2, cursor3) \<Rightarrow> Some (st2, db1, cursor3)))))"

definition cursor_clear_dupecache :: "ham_cursor_t \<Rightarrow> ham_cursor_t" where
  "cursor_clear_dupecache cursor =
     cursor\<lparr>cur_dupecache := dupecache_reset (cur_dupecache cursor), cur_dupecache_index := 0\<rparr>"

definition cursor_get_dupecache_count :: "cursor_env \<Rightarrow> ham_db_t \<Rightarrow> ham_cursor_t
    \<Rightarrow> (nat \<times> ham_db_t \<times> ham_cursor_t) option" where
  "cursor_get_dupecache_count env db cursor =
     (if \<not> enable_duplicates env then Some (0, db, cursor)
      else case cursor_update_dupecache env db cursor
                  (if txnc_coupled_op (cur_txn cursor) \<noteq> None then {CURSOR_BTREE, CURSOR_TXN} else {CURSOR_BTREE}) of
        None \<Rightarrow> None
      | Some (st, db1, cursor1) \<Rightarrow> Some (dupecache_get_count (cur_dupecache cursor1), db1, cursor1))"

subsection \<open>Moving the merged cursor\<close>

definition cursor_couple_to_dupe :: "ham_cursor_t \<Rightarrow> nat \<Rightarrow> ham_cursor_t option" where
  "cursor_couple_to_dupe cursor dupe_id =
     (if dupe_id < 1 \<or> dupecache_get_count (cur_dupecache cursor) < dupe_id then None
      else case dc_elements (cur_dupecache cursor) ! (dupe_id - 1) of
        Btree_line i \<Rightarrow>
          Some (cursor\<lparr>cur_coupled_to_txnop := False, cur_btree_dupe_id := i, cur_dupecache_index := dupe_id\<rparr>)
      | Txn_line op1 \<Rightarrow>
          Some (cursor\<lparr>cur_txn := (cur_txn cursor)\<lparr>txnc_coupled_op := Some op1\<rparr>,
                       cur_coupled_to_txnop := True, cur_dupecache_index := dupe_id\<rparr>))"

definition cursor_has_duplicates :: "ham_cursor_t \<Rightarrow> bool" where
  "cursor_has_duplicates cursor = (dupecache_get_count (cur_dupecache cursor) > 1)"

definition cursor_move_next_dupe :: "ham_cursor_t \<Rightarrow> (ham_status_t \<times> ham_cursor_t) option" where
  "cursor_move_next_dupe cursor =
     (if cur_dupecache_index cursor \<noteq> 0
         \<and> cur_dupecache_index cursor < dupecache_get_count (cur_dupecache cursor)
      then map_option (Pair HAM_SUCCESS) (cursor_couple_to_dupe cursor (cur_dupecache_index cursor + 1))
      else Some (HAM_LIMITS_REACHED, cursor))"

definition cursor_move_previous_dupe :: "ham_cursor_t \<Rightarrow> (ham_status_t \<times> ham_cursor_t) option" where
  "cursor_move_previous_dupe cursor =
     (if cur_dupecache_index cursor \<noteq> 0 \<and> cur_dupecache_index cursor > 1
      then map_option (Pair HAM_SUCCESS) (cursor_couple_to_dupe cursor (cur_dupecache_index cursor - 1))
      else Some (HAM_LIMITS_REACHED, cursor))"

definition cursor_move_first_dupe :: "ham_cursor_t \<Rightarrow> (ham_status_t \<times> ham_cursor_t) option" where
  "cursor_move_first_dupe cursor =
     (if dupecache_get_count (cur_dupecache cursor) \<noteq> 0
      then map_option (Pair HAM_SUCCESS) (cursor_couple_to_dupe cursor 1)
      else Some (HAM_LIMITS_REACHED, cursor))"

definition cursor_move_last_dupe :: "ham_cursor_t \<Rightarrow> (ham_status_t \<times> ham_cursor_t) option" where
  "cursor_move_last_dupe cursor =
     (if dupecache_get_count (cur_dupecache cursor) \<noteq> 0
      then map_option (Pair HAM_SUCCESS)
             (cursor_couple_to_dupe cursor (dupecache_get_count (cur_dupecache cursor)))
      else Some (HAM_LIMITS_REACHED, cursor))"

text \<open>The three key moves that the source leaves as stubs: each returns 0 and touches
  nothing.\<close>

definition cursor_move_next_key :: "ham_cursor_t \<Rightarrow> ham_status_t" where
  "cursor_move_next_key cursor = HAM_SUCCESS"

definition cursor_move_previous_key :: "ham_cursor_t \<Rightarrow> ham_status_t" where
  "cursor_move_previous_key cursor = HAM_SUCCESS"

definition cursor_move_last_key :: "ham_cursor_t \<Rightarrow> ham_status_t" where
  "cursor_move_last_key cursor = HAM_SUCCESS"

text \<open>
  \<open>__compare_cursors\<close> returns a status and, through \<open>pcmp\<close>, the comparison of the key
  under the B-tree cursor with the key of the transaction node.  A nil B-tree cursor or a
  transaction cursor without a node violates its assertions and leaves \<open>*pcmp\<close> unset
  (\<open>None\<close>).
\<close>

definition compare_cursors :: "cursor_env \<Rightarrow> ham_db_t \<Rightarrow> ham_cursor_t \<Rightarrow> (ham_status_t \<times> int) option" where
  "compare_cursors env db cursor =
     (case txnc_node (cur_txn cursor) of
        None \<Rightarrow> None
      | Some node \<Rightarrow>
          if BT_CURSOR_FLAG_COUPLED \<in> bt_flags (cur_btree cursor)
          then (case clone_uncoupled_key env db (cur_btree cursor) of
                  (st, k) \<Rightarrow>
                    if st \<noteq> HAM_SUCCESS then Some (st, 0)
                    else Some (HAM_SUCCESS, db_compare_keys env k (opnode_key node)))
          else if BT_CURSOR_FLAG_UNCOUPLED \<in> bt_flags (cur_btree cursor)
          then (case uncoupled_key (cur_btree cursor) of
                  None \<Rightarrow> None
                | Some k \<Rightarrow> Some (HAM_SUCCESS, db_compare_keys env k (opnode_key node)))
          else None)"

text \<open>
  \<open>btree_move\<close> is the call \<open>btree_cursor_move(btrc, 0, 0, flags)\<close>: no key and no record
  are read.  \<open>update_ignoring_status\<close> is a call of \<open>cursor_update_dupecache\<close> whose status
  the caller drops.
\<close>

definition btree_move :: "cursor_env \<Rightarrow> ham_db_t \<Rightarrow> ham_cursor_t \<Rightarrow> move_flag set
    \<Rightarrow> (ham_status_t \<times> ham_db_t \<times> ham_cursor_t) option" where
  "btree_move env db cursor flags =
     (case bt_cursor_move (env_bt env) db (cur_btree cursor) False False flags of
        None \<Rightarrow> None
      | Some (st, db1, btc, k, r) \<Rightarrow> Some (st, db1, cursor\<lparr>cur_btree := btc\<rparr>))"

definition update_ignoring_status :: "cursor_env \<Rightarrow> ham_db_t \<Rightarrow> ham_cursor_t \<Rightarrow> cursor_part set
    \<Rightarrow> (ham_db_t \<times> ham_cursor_t) option" where
  "update_ignoring_status env db cursor what =
     map_option snd (cursor_update_dupecache env db cursor what)"

definition first_key_equal :: "cursor_env \<Rightarrow> ham_status_t \<Rightarrow> ham_status_t \<Rightarrow> ham_db_t \<Rightarrow> ham_cursor_t
    \<Rightarrow> (ham_status_t \<times> ham_db_t \<times> ham_cursor_t) option" where
  "first_key_equal env txns btrs db0 cursor0 =
     (let cursor1 = cursor0\<lparr>cur_coupled_to_txnop := True\<rparr> in
      case cursor_get_dupecache_count env db0 cursor1 of
        None \<Rightarrow> None
      | Some (n, db, cursor) \<Rightarrow>
          if n \<noteq> 0
          then (if txns = HAM_KEY_ERASED_IN_TXN
                then (case update_ignoring_status env db cursor {CURSOR_BTREE, CURSOR_TXN} of
                        None \<Rightarrow> None
                      | Some (db1, cursor2) \<Rightarrow> Some (txns, db1, cursor2))
                else if txns = HAM_SUCCESS \<and> btrs = HAM_SUCCESS
                then (case update_ignoring_status env db cursor {CURSOR_BTREE, CURSOR_TXN} of
                        None \<Rightarrow> None
                      | Some (db1, cursor2) \<Rightarrow> Some (HAM_SUCCESS, db1, cursor2))
                else Some (if txns \<noteq> HAM_SUCCESS then txns else btrs, db, cursor))
          else if txns = HAM_KEY_ERASED_IN_TXN
          then (case btree_move env db cursor {HAM_CURSOR_NEXT} of
                  None \<Rightarrow> None
                | Some (st_dropped, db1, cursor2) \<Rightarrow>
                    let st = cursor_move_next_key cursor2 in
                    if st = HAM_KEY_ERASED_IN_TXN
                    then (case cursor_set_to_nil_btree db1 cursor2 of
                            (db2, cursor3) \<Rightarrow> Some (HAM_KEY_NOT_FOUND, db2, cursor_set_to_nil_txn cursor3))
                    else Some (st, db1, cursor2))
          else if txns = HAM_TXN_CONFLICT then Some (txns, db, cursor)
          else if txns = HAM_SUCCESS then Some (cursor_move_next_key cursor, db, cursor)
          else Some (if txns \<noteq> HAM_SUCCESS then txns else btrs, db, cursor))"

definition cursor_move_first_key :: "cursor_env \<Rightarrow> ham_db_t \<Rightarrow> ham_cursor_t
    \<Rightarrow> (ham_status_t \<times> ham_db_t \<times> ham_cursor_t) option" where
  "cursor_move_first_key env db0 cursor0 =
     (case txn_cursor_move env (cur_txn cursor0) {HAM_CURSOR_FIRST} of
        (txns, txnc) \<Rightarrow>
      case btree_move env db0 (cursor0\<lparr>cur_txn := txnc\<rparr>) {HAM_CURSOR_FIRST} of
        None \<Rightarrow> None
      | Some (btrs, db, cursor) \<Rightarrow>
          let finish = (\<lambda>r. case r of
                          None \<Rightarrow> None
                        | Some (db1, cursor1) \<Rightarrow>
                            (case (if btrs = HAM_KEY_NOT_FOUND \<and> txns = HAM_KEY_ERASED_IN_TXN
                                   then update_ignoring_status env db1 cursor1 {CURSOR_TXN}
                                   else Some (db1, cursor1)) of
                               None \<Rightarrow> None
                             | Some (db2, cursor2) \<Rightarrow>
                                 Some (if txns \<noteq> HAM_SUCCESS then txns else btrs, db2, cursor2)))
          in
          if btrs = HAM_KEY_NOT_FOUND \<and> txns = HAM_KEY_NOT_FOUND then Some (HAM_KEY_NOT_FOUND, db, cursor)
          else if btrs = HAM_KEY_NOT_FOUND \<and> txns = HAM_SUCCESS
          then finish (update_ignoring_status env db (cursor\<lparr>cur_coupled_to_txnop := True\<rparr>) {CURSOR_TXN})
          else if txns = HAM_KEY_NOT_FOUND \<and> btrs = HAM_SUCCESS
          then finish (update_ignoring_status env db (cursor\<lparr>cur_coupled_to_txnop := False\<rparr>) {CURSOR_BTREE})
          else if btrs = HAM_SUCCESS
                  \<and> (txns = HAM_SUCCESS \<or> txns = HAM_KEY_ERASED_IN_TXN \<or> txns = HAM_TXN_CONFLICT)
          then (case compare_cursors env db cursor of
                  None \<Rightarrow> None
                | Some (st, cmp) \<Rightarrow>
                    if st \<noteq> HAM_SUCCESS then Some (st, db, cursor)
                    else if cmp = 0 then first_key_equal env txns btrs db cursor
                    else if cmp < 1
                    then finish (update_ignoring_status env db (cursor\<lparr>cur_coupled_to_txnop := False\<rparr>) {CURSOR_BTREE})
                    else if txns = HAM_TXN_CONFLICT then Some (txns, db, cursor)
                    else finish (update_ignoring_status env db (cursor\<lparr>cur_coupled_to_txnop := True\<rparr>) {CURSOR_TXN}))
          else finish (Some (db, cursor)))"

text \<open>
  \<open>cursor_move\<close>.  \<open>retrieve_key\<close> is the code after the label
  \<open>retrieve_key_and_record\<close> for a status of 0: the key comes from the transaction node
  when the cursor is coupled to a transaction operation, from the B-tree otherwise.
  \<open>cursor_move\<close> calls itself when every duplicate of the key it reached is erased;
  nothing bounds that recursion, so it is a partial function.
\<close>

definition retrieve_key :: "cursor_env \<Rightarrow> ham_db_t \<Rightarrow> ham_cursor_t \<Rightarrow> bool
    \<Rightarrow> (ham_status_t \<times> ham_db_t \<times> ham_cursor_t \<times> byte list option) option" where
  "retrieve_key env db cursor want_key =
     (if cur_coupled_to_txnop cursor
      then (case txnc_coupled_op (cur_txn cursor) of
              None \<Rightarrow> None
            | Some op1 \<Rightarrow>
                if want_key
                then (case txnc_node (cur_txn cursor) of
                        None \<Rightarrow> None
                      | Some node \<Rightarrow> Some (HAM_SUCCESS, db, cursor, Some (opnode_key node)))
                else Some (HAM_SUCCESS, db, cursor, None))
      else (case bt_cursor_move (env_bt env) db (cur_btree cursor) want_key False {} of
              None \<Rightarrow> None
            | Some (st, db1, btc, k, r) \<Rightarrow> Some (st, db1, cursor\<lparr>cur_btree := btc\<rparr>, k)))"

definition move_dupe :: "ham_cursor_t \<Rightarrow> move_flag set \<Rightarrow> (ham_status_t \<times> ham_cursor_t) option" where
  "move_dupe cursor flags =
     (if HAM_CURSOR_NEXT \<in> flags then cursor_move_next_dupe cursor
      else if HAM_CURSOR_PREVIOUS \<in> flags then cursor_move_previous_dupe cursor
      else if HAM_CURSOR_FIRST \<in> flags then cursor_move_first_dupe cursor
      else cursor_move_last_dupe cursor)"

definition move_key :: "cursor_env \<Rightarrow> ham_db_t \<Rightarrow> ham_cursor_t \<Rightarrow> move_flag set
    \<Rightarrow> (ham_status_t \<times> ham_db_t \<times> ham_cursor_t) option" where
  "move_key env db cursor flags =
     (if HAM_CURSOR_NEXT \<in> flags then Some (cursor_move_next_key cursor, db, cursor)
      else if HAM_CURSOR_PREVIOUS \<in> flags then Some (cursor_move_previous_key cursor, db, cursor)
      else if HAM_CURSOR_FIRST \<in> flags then cursor_move_first_key env db cursor
      else Some (cursor_move_last_key cursor, db, cursor))"

definition move_sync :: "cursor_env \<Rightarrow> ham_db_t \<Rightarrow> ham_cursor_t \<Rightarrow> move_flag set
    \<Rightarrow> (ham_status_t \<times> ham_db_t \<times> ham_cursor_t) option" where
  "move_sync env db cursor flags =
     (let changed_dir = (cur_lastop cursor = LASTOP_PREVIOUS \<and> HAM_CURSOR_NEXT \<in> flags)
                      \<or> (cur_lastop cursor = LASTOP_NEXT \<and> HAM_CURSOR_PREVIOUS \<in> flags)
      in if (HAM_CURSOR_NEXT \<in> flags \<or> HAM_CURSOR_PREVIOUS \<in> flags)
            \<and> (cur_lastop cursor = CURSOR_LOOKUP_INSERT \<or> changed_dir)
         then (case cursor_sync env db cursor flags of
                 None \<Rightarrow> None
               | Some (st, eq, db1, cursor1) \<Rightarrow> Some (st, db1, cursor1))
         else Some (HAM_SUCCESS, db, cursor))"

definition retry_flags :: "move_flag set \<Rightarrow> move_flag set" where
  "retry_flags flags =
     (if HAM_CURSOR_FIRST \<in> flags then insert HAM_CURSOR_NEXT (flags - {HAM_CURSOR_FIRST})
      else if HAM_CURSOR_LAST \<in> flags then insert HAM_CURSOR_PREVIOUS (flags - {HAM_CURSOR_LAST})
      else flags)"

partial_function (option) cursor_move :: "cursor_env \<Rightarrow> ham_db_t \<Rightarrow> ham_cursor_t \<Rightarrow> bool \<Rightarrow> move_flag set
    \<Rightarrow> (ham_status_t \<times> ham_db_t \<times> ham_cursor_t \<times> byte list option) option" where
  "cursor_move env db0 cursor0 want_key flags =
     (let skip_duplicates = (\<not> enable_duplicates env \<or> HAM_SKIP_DUPLICATES \<in> flags) in
      if flags = {} then retrieve_key env db0 cursor0 want_key
      else case move_sync env db0 cursor0 flags of
        None \<Rightarrow> None
      | Some (st0, db1, cursor1) \<Rightarrow>
          if st0 \<noteq> HAM_SUCCESS then Some (st0, db1, cursor1, None)
          else
            (case (if skip_duplicates then Some (HAM_LIMITS_REACHED, cursor1) else move_dupe cursor1 flags) of
               None \<Rightarrow> None
             | Some (st1, cursor2) \<Rightarrow>
                 if \<not> skip_duplicates \<and> st1 = HAM_SUCCESS then retrieve_key env db1 cursor2 want_key
                 else if \<not> skip_duplicates \<and> st1 \<noteq> HAM_LIMITS_REACHED then Some (st1, db1, cursor2, None)
                 else
                   (case move_key env db1 (cursor_clear_dupecache cursor2) flags of
                      None \<Rightarrow> None
                    | Some (st2, db2, cursor3) \<Rightarrow>
                        if st2 \<noteq> HAM_SUCCESS then Some (st2, db2, cursor3, None)
                        else if \<not> skip_duplicates \<and> cursor_has_duplicates cursor3
                        then (case (if HAM_CURSOR_NEXT \<in> flags \<or> HAM_CURSOR_FIRST \<in> flags
                                    then cursor_move_first_dupe cursor3
                                    else cursor_move_last_dupe cursor3) of
                                None \<Rightarrow> None
                              | Some (st3, cursor4) \<Rightarrow>
                                  if st3 = HAM_LIMITS_REACHED
                                  then cursor_move env db2 cursor4 want_key (retry_flags flags)
                                  else if st3 \<noteq> HAM_SUCCESS then Some (st3, db2, cursor4, None)
                                  else retrieve_key env db2 cursor4 want_key)
                        else retrieve_key env db2 cursor3 want_key)))"

subsection \<open>Two small scenarios for the merged cursor\<close>

text \<open>
  In the first scenario the B-tree cursor stands on a key with three duplicates, and the
  node of the transaction tree for that key holds one operation \<open>insert_dx\<close>: an
  insertion of a duplicate after the first one.  In the second the transaction tree
  holds one node, for the key \<open>[1]\<close>, with a single erase operation: \<open>txn_cursor_move\<close>
  to the first key couples the transaction cursor to it and reports
  \<open>HAM_KEY_ERASED_IN_TXN\<close>.  Keys are compared by their first byte in the examples.
\<close>

definition insert_dx :: txn_op_t where
  "insert_dx = \<lparr>op_id = 1, op_flags = {TXN_OP_INSERT_DUP}, op_orig_flags = {HAM_DUPLICATE_INSERT_AFTER},
                 op_referenced_dupe = 1, op_txn_aborted = False\<rparr>"

definition erase_op :: txn_op_t where
  "erase_op = \<lparr>op_id = 2, op_flags = {TXN_OP_ERASE}, op_orig_flags = {},
                op_referenced_dupe = 0, op_txn_aborted = False\<rparr>"

definition erase_node :: txn_opnode_t where
  "erase_node = \<lparr>opnode_key = [1], opnode_ops = [erase_op]\<rparr>"

definition example_key_at :: "ham_db_t \<Rightarrow> ham_bt_cursor_t \<Rightarrow> ham_status_t \<times> byte list" where
  "example_key_at db c =
     (case db_pages db (coupled_page c) of
        None \<Rightarrow> (HAM_IO_ERROR, [])
      | Some pg \<Rightarrow>
          if unat (coupled_index c) < btree_node_get_count (page_node pg)
          then (HAM_SUCCESS, key_data (node_entries (page_node pg) ! unat (coupled_index c)))
          else (HAM_KEY_NOT_FOUND, []))"

definition example_compare :: "byte list \<Rightarrow> byte list \<Rightarrow> int" where
  "example_compare a b = (if a = b then 0 else if hd a < hd b then - 1 else 1)"

definition dupes_env :: cursor_env where
  "dupes_env =
     \<lparr>env_bt = example_env,
      txn_cursor_move = (\<lambda>txnc flags. (HAM_KEY_NOT_FOUND, txnc)),
      txn_cursor_find = (\<lambda>txnc k flags. (HAM_KEY_NOT_FOUND, txnc, False)),
      btree_cursor_find = (\<lambda>db c k flags. (HAM_KEY_NOT_FOUND, db, c, False)),
      btree_cursor_get_duplicate_table = (\<lambda>db c. (HAM_SUCCESS, Some 3)),
      clone_uncoupled_key = example_key_at,
      db_compare_keys = example_compare,
      realloc_ok = (\<lambda>n. True),
      enable_duplicates = True\<rparr>"

definition erase_env :: cursor_env where
  "erase_env =
     \<lparr>env_bt = example_env,
      txn_cursor_move = (\<lambda>txnc flags.
         (HAM_KEY_ERASED_IN_TXN, \<lparr>txnc_coupled_op = Some erase_op, txnc_node = Some erase_node\<rparr>)),
      txn_cursor_find = (\<lambda>txnc k flags. (HAM_KEY_NOT_FOUND, txnc, False)),
      btree_cursor_find = (\<lambda>db c k flags. (HAM_KEY_NOT_FOUND, db, c, False)),
      btree_cursor_get_duplicate_table = (\<lambda>db c. (HAM_SUCCESS, None)),
      clone_uncoupled_key = example_key_at,
      db_compare_keys = example_compare,
      realloc_ok = (\<lambda>n. True),
      enable_duplicates = True\<rparr>"

definition single_key_leaf :: ham_page_t where
  "single_key_leaf =
     \<lparr>page_node = \<lparr>node_entries = [\<lparr>key_data = [1], key_ptr = 0\<rparr>],
                   node_is_leaf = True, node_ptr_left = 0, node_left = 0, node_right = 0\<rparr>,
      page_cursors = []\<rparr>"

definition single_key_db :: ham_db_t where
  "single_key_db =
     \<lparr>db_pages = [0x1000 \<mapsto> single_key_leaf],
      db_error = HAM_SUCCESS, db_txn = True, db_backend = True, btree_rootpage = 0x1000\<rparr>"

definition fresh_cursor :: ham_cursor_t where
  "fresh_cursor =
     \<lparr>cur_btree = nil_cursor, cur_btree_dupe_id = 0,
      cur_txn = \<lparr>txnc_coupled_op = None, txnc_node = None\<rparr>,
      cur_dupecache = \<lparr>dc_elements = [], dc_capacity = 0\<rparr>,
      cur_dupecache_index = 0, cur_coupled_to_txnop = False, cur_lastop = LASTOP_NONE\<rparr>"

definition dupes_cursor :: ham_cursor_t where
  "dupes_cursor =
     fresh_cursor\<lparr>cur_btree := cursor_at 0x1000 0,
                   cur_txn := \<lparr>txnc_coupled_op = Some insert_dx,
                               txnc_node = Some \<lparr>opnode_key = [1], opnode_ops = [insert_dx]\<rparr>\<rparr>\<rparr>"

text \<open>What a caller observes of a move of the merged cursor: the status, the side the
  cursor is coupled to, the position of the B-tree cursor and the key returned.\<close>

definition merged_outcome :: "(ham_status_t \<times> ham_db_t \<times> ham_cursor_t \<times> byte list option) option
    \<Rightarrow> (ham_status_t \<times> bool \<times> (64 word \<times> 32 word) option \<times> byte list option) option" where
  "merged_outcome r =
     map_option (\<lambda>(st, db, c, k). (st, cur_coupled_to_txnop c, cursor_position (cur_btree c), k)) r"

subsection \<open>Properties of the merged cursor\<close>

lemma dupecache_append_no_resize:
  "length (dc_elements dc) + 2 \<le> dc_capacity dc \<Longrightarrow>
   dupecache_append ok dc l = Some (HAM_SUCCESS, dc\<lparr>dc_elements := dc_elements dc @ [l]\<rparr>)"
  by (auto simp: dupecache_append_def needs_resize_def dupecache_get_count_def)

lemma dupecache_insert_no_resize:
  "length (dc_elements dc) + 2 \<le> dc_capacity dc \<Longrightarrow> position < length (dc_elements dc) \<Longrightarrow>
   dupecache_insert ok dc position l
     = Some (HAM_SUCCESS, dc\<lparr>dc_elements := take position (dc_elements dc) @ l # drop position (dc_elements dc)\<rparr>)"
  by (auto simp: dupecache_insert_def needs_resize_def dupecache_get_count_def)

lemma append_btree_lines_3:
  assumes "dc_elements dc = []" "8 \<le> dc_capacity dc"
  shows "append_btree_lines ok dc [0..<3]
       = Some (HAM_SUCCESS, dc\<lparr>dc_elements := [Btree_line 0, Btree_line 1, Btree_line 2]\<rparr>)"
proof -
  have u: "[0..<3] = [0, 1, 2]" by code_simp
  show ?thesis
    using assms
    by (simp add: u dupecache_append_no_resize)
qed

lemma apply_insert_after_first:
  assumes "dc_elements dc = [Btree_line 0, Btree_line 1, Btree_line 2]" "8 \<le> dc_capacity dc"
    "\<not> op_txn_aborted dx" "TXN_OP_INSERT_DUP \<in> op_flags dx" "TXN_OP_INSERT \<notin> op_flags dx"
    "TXN_OP_INSERT_OW \<notin> op_flags dx"
    "HAM_DUPLICATE_INSERT_AFTER \<in> op_orig_flags dx" "HAM_DUPLICATE_INSERT_FIRST \<notin> op_orig_flags dx"
    "HAM_DUPLICATE_INSERT_BEFORE \<notin> op_orig_flags dx" "op_referenced_dupe dx = 1"
  shows "apply_txn_ops ok dc [dx]
       = Some (HAM_SUCCESS, dc\<lparr>dc_elements := [Btree_line 0, Txn_line dx, Btree_line 1, Btree_line 2]\<rparr>)"
  using assms
  by (simp add: apply_txn_op_def dupecache_insert_no_resize dupecache_get_count_def)

text \<open>
  Claim C4 (duplicate interleave).  The duplicate cache is empty, the B-tree cursor stands
  on a key whose duplicate table has three entries, and the node of the transaction
  cursor holds exactly one operation \<open>dx\<close>, not aborted: an \<open>InsertDuplicate\<close> with the
  original flag \<open>After\<close> and \<open>referenced_dupe = 1\<close>.  Provided the allocation of the cache
  succeeds, \<open>cursor_update_dupecache\<close> for both sides returns 0 and leaves the cache
  \<open>[B:0, T:dx, B:1, B:2]\<close>: the B-tree lines in table order, and the operation behind the
  first of them.
\<close>

theorem update_both_interleaves_duplicate:
  assumes "dc_elements (cur_dupecache cursor) = []"
    "dc_capacity (cur_dupecache cursor) = 0 \<or> 8 \<le> dc_capacity (cur_dupecache cursor)"
    "realloc_ok env 8"
    "\<not> bt_cursor_is_nil (cur_btree cursor)"
    "btree_cursor_get_duplicate_table env db (cur_btree cursor) = (HAM_SUCCESS, Some 3)"
    "txnc_coupled_op (cur_txn cursor) = Some dx"
    "txnc_node (cur_txn cursor) = Some node" "opnode_ops node = [dx]"
    "\<not> op_txn_aborted dx" "TXN_OP_INSERT_DUP \<in> op_flags dx" "TXN_OP_INSERT \<notin> op_flags dx"
    "TXN_OP_INSERT_OW \<notin> op_flags dx"
    "HAM_DUPLICATE_INSERT_AFTER \<in> op_orig_flags dx" "HAM_DUPLICATE_INSERT_FIRST \<notin> op_orig_flags dx"
    "HAM_DUPLICATE_INSERT_BEFORE \<notin> op_orig_flags dx" "op_referenced_dupe dx = 1"
  shows "\<exists>cursor'. cursor_update_dupecache env db cursor {CURSOR_BTREE, CURSOR_TXN} = Some (HAM_SUCCESS, db, cursor')
       \<and> dc_elements (cur_dupecache cursor') = [Btree_line 0, Txn_line dx, Btree_line 1, Btree_line 2]"
proof -
  define dc0 where "dc0 = (if dc_capacity (cur_dupecache cursor) = 0
       then \<lparr>dc_elements = [], dc_capacity = 8\<rparr> else cur_dupecache cursor)"
  have c: "(if dc_capacity (cur_dupecache cursor) = 0 then dupecache_create (realloc_ok env) 8
            else (HAM_SUCCESS, cur_dupecache cursor)) = (HAM_SUCCESS, dc0)"
    using assms(3) by (simp add: dc0_def dupecache_create_def dupecache_resize_def)
  have e0: "dc_elements dc0 = []" and cap0: "8 \<le> dc_capacity dc0"
    using assms(1,2) by (auto simp: dc0_def)
  let ?c1 = "cursor\<lparr>cur_dupecache := dc0\<rparr>"
  have s: "update_sync env db ?c1 {CURSOR_BTREE, CURSOR_TXN} = Some (db, ?c1)"
    using assms(4) by (simp add: update_sync_def cursor_is_nil_def)
  let ?dc1 = "dc0\<lparr>dc_elements := [Btree_line 0, Btree_line 1, Btree_line 2]\<rparr>"
  have b: "update_btree env db ?c1 {CURSOR_BTREE, CURSOR_TXN} = Some (HAM_SUCCESS, ?c1\<lparr>cur_dupecache := ?dc1\<rparr>)"
    using assms(4,5) by (simp add: update_btree_def cursor_is_nil_def append_btree_lines_3 [OF e0 cap0])
  let ?dc2 = "?dc1\<lparr>dc_elements := [Btree_line 0, Txn_line dx, Btree_line 1, Btree_line 2]\<rparr>"
  have a: "apply_txn_ops (realloc_ok env) ?dc1 [dx] = Some (HAM_SUCCESS, ?dc2)"
    by (rule apply_insert_after_first) (use assms cap0 in simp_all)
  have t: "update_txn env (?c1\<lparr>cur_dupecache := ?dc1\<rparr>) {CURSOR_BTREE, CURSOR_TXN}
         = Some (HAM_SUCCESS, ?c1\<lparr>cur_dupecache := ?dc2\<rparr>)"
    using assms(6,7,8) a by (simp add: update_txn_def cursor_is_nil_def)
  have "cursor_update_dupecache env db cursor {CURSOR_BTREE, CURSOR_TXN}
      = Some (HAM_SUCCESS, db, ?c1\<lparr>cur_dupecache := ?dc2\<rparr>)"
    unfolding cursor_update_dupecache_def
    using assms(1) by (simp add: dupecache_get_count_def c s b [simplified] t [simplified])
  then show ?thesis by simp
qed

theorem update_both_interleaves_duplicate_witness:
  "\<exists>cursor'. cursor_update_dupecache dupes_env example_db dupes_cursor {CURSOR_BTREE, CURSOR_TXN}
       = Some (HAM_SUCCESS, example_db, cursor')
     \<and> dc_elements (cur_dupecache cursor') = [Btree_line 0, Txn_line insert_dx, Btree_line 1, Btree_line 2]"
  by (rule update_both_interleaves_duplicate [where node = "\<lparr>opnode_key = [1], opnode_ops = [insert_dx]\<rparr>"])
     (simp_all add: dupes_cursor_def fresh_cursor_def dupes_env_def insert_dx_def cursor_at_def bt_cursor_is_nil_def)

lemma bt_first_single:
  "bt_cursor_move example_env single_key_db nil_cursor False False {HAM_CURSOR_FIRST}
   = Some (HAM_SUCCESS,
           page_add_cursor single_key_db 0x1000 7,
           cursor_at 0x1000 0, None, None)"
  by (simp add: bt_cursor_move_def rewrite_nil_flags_def dispatch_move_def bt_cursor_is_nil_def
     my_move_first_def my_set_to_nil_def nil_cursor_def single_key_db_def
     db_fetch_page_def descend_leftmost.simps single_key_leaf_def btree_node_get_count_def
     couple_to_def cursor_at_def read_entry_def page_add_cursor_def example_env_def)

lemma bt_next_single:
  "bt_cursor_move example_env (page_add_cursor single_key_db 0x1000 7) (cursor_at 0x1000 0) False False {HAM_CURSOR_NEXT}
   = Some (HAM_CURSOR_IS_NIL, single_key_db,
           (cursor_at 0x1000 0)\<lparr>bt_flags := {}\<rparr>, None, None)"
  by (simp add: bt_cursor_move_def rewrite_nil_flags_def dispatch_move_def bt_cursor_is_nil_def
     my_move_next_def cursor_at_def single_key_db_def
     db_fetch_page_def single_key_leaf_def btree_node_get_count_def
     page_remove_cursor_def page_add_cursor_def example_env_def)

lemma first_key_single:
  "map_option (\<lambda>(st, db, c). (st, cur_coupled_to_txnop c, cursor_position (cur_btree c), cur_txn c,
                                  dc_elements (cur_dupecache c)))
     (cursor_move_first_key erase_env single_key_db fresh_cursor)
   = Some (HAM_SUCCESS, True, None, \<lparr>txnc_coupled_op = Some erase_op, txnc_node = Some erase_node\<rparr>, [])"
  apply (simp add: cursor_move_first_key_def btree_move_def erase_env_def fresh_cursor_def bt_first_single)
  apply (simp add: compare_cursors_def cursor_at_def example_key_at_def erase_node_def
      page_add_cursor_def single_key_db_def single_key_leaf_def btree_node_get_count_def example_compare_def)
  apply (simp add: first_key_equal_def cursor_get_dupecache_count_def cursor_update_dupecache_def
      dupecache_get_count_def dupecache_create_def dupecache_resize_def update_sync_def update_btree_def
      update_txn_def cursor_is_nil_def bt_cursor_is_nil_def apply_txn_op_def erase_op_def dupecache_reset_def)
  apply (simp add: btree_move_def  cursor_move_next_key_def cursor_position_def 
      bt_next_single [unfolded cursor_at_def page_add_cursor_def single_key_db_def single_key_leaf_def, simplified])
  done

lemma cursor_move_first_no_dupes:
  assumes "cursor_move_first_key env db0 cursor0 = Some (HAM_SUCCESS, db, c)"
    "dc_elements (cur_dupecache cursor0) = []" "cur_dupecache_index cursor0 = 0"
    "dc_elements (cur_dupecache c) = []"
  shows "cursor_move env db0 cursor0 want_key {HAM_CURSOR_FIRST} = retrieve_key env db c want_key"
proof -
  have cl: "cursor_clear_dupecache cursor0 = cursor0"
    using assms(2,3) by (simp add: cursor_clear_dupecache_def dupecache_reset_def)
  have d: "move_dupe cursor0 {HAM_CURSOR_FIRST} = Some (HAM_LIMITS_REACHED, cursor0)"
    using assms(2) by (simp add: move_dupe_def cursor_move_first_dupe_def dupecache_get_count_def)
  have k: "move_key env db0 cursor0 {HAM_CURSOR_FIRST} = Some (HAM_SUCCESS, db, c)"
    using assms(1) by (simp add: move_key_def)
  have h: "\<not> cursor_has_duplicates c"
    using assms(4) by (simp add: cursor_has_duplicates_def dupecache_get_count_def)
  show ?thesis
    by (subst cursor_move.simps) (simp add: Let_def move_sync_def d cl k h)
qed

lemma move_first_single:
  "merged_outcome (cursor_move erase_env single_key_db fresh_cursor True {HAM_CURSOR_FIRST})
   = Some (HAM_SUCCESS, True, None, Some [1])"
proof -
  obtain db c where r: "cursor_move_first_key erase_env single_key_db fresh_cursor = Some (HAM_SUCCESS, db, c)"
     and c: "cur_coupled_to_txnop c" "cursor_position (cur_btree c) = None"
            "cur_txn c = \<lparr>txnc_coupled_op = Some erase_op, txnc_node = Some erase_node\<rparr>"
            "dc_elements (cur_dupecache c) = []"
    using first_key_single by (auto simp: map_option_case split: option.splits)
  have "cursor_move erase_env single_key_db fresh_cursor True {HAM_CURSOR_FIRST}
      = retrieve_key erase_env db c True"
    by (rule cursor_move_first_no_dupes [OF r _ _ c(4)]) (simp_all add: fresh_cursor_def)
  then show ?thesis
    using c by (simp add: merged_outcome_def retrieve_key_def erase_node_def)
qed

lemma bt_first_example:
  "bt_cursor_move example_env example_db nil_cursor False False {HAM_CURSOR_FIRST}
   = Some (HAM_SUCCESS, page_add_cursor example_db 0x1000 7, cursor_at 0x1000 0, None, None)"
  by (simp add: bt_cursor_move_def rewrite_nil_flags_def dispatch_move_def bt_cursor_is_nil_def
     my_move_first_def my_set_to_nil_def nil_cursor_def example_db_def
     db_fetch_page_def descend_leftmost.simps example_root_def example_leaf1_def btree_node_get_count_def
     couple_to_def cursor_at_def read_entry_def page_add_cursor_def example_env_def)

lemma bt_next_example:
  "bt_cursor_move example_env (page_add_cursor example_db 0x1000 7) (cursor_at 0x1000 0) False False {HAM_CURSOR_NEXT}
   = Some (HAM_SUCCESS, page_add_cursor example_db 0x1000 7, cursor_at 0x1000 1, None, None)"
  by (simp add: bt_cursor_move_def rewrite_nil_flags_def dispatch_move_def bt_cursor_is_nil_def
     my_move_next_def cursor_at_def example_db_def read_entry_def
     db_fetch_page_def example_leaf1_def btree_node_get_count_def
     page_remove_cursor_def page_add_cursor_def example_env_def)

lemma first_key_example:
  "map_option (\<lambda>(st, db, c). (st, cur_coupled_to_txnop c, cursor_position (cur_btree c), cur_txn c,
                                  dc_elements (cur_dupecache c)))
     (cursor_move_first_key erase_env example_db fresh_cursor)
   = Some (HAM_SUCCESS, True, Some (0x1000, 1), \<lparr>txnc_coupled_op = Some erase_op, txnc_node = Some erase_node\<rparr>, [])"
  apply (simp add: cursor_move_first_key_def btree_move_def erase_env_def fresh_cursor_def bt_first_example)
  apply (simp add: compare_cursors_def cursor_at_def example_key_at_def erase_node_def
      page_add_cursor_def example_db_def example_leaf1_def btree_node_get_count_def example_compare_def)
  apply (simp add: first_key_equal_def cursor_get_dupecache_count_def cursor_update_dupecache_def
      dupecache_get_count_def dupecache_create_def dupecache_resize_def update_sync_def update_btree_def
      update_txn_def cursor_is_nil_def bt_cursor_is_nil_def apply_txn_op_def erase_op_def dupecache_reset_def)
  apply (simp add: btree_move_def  cursor_move_next_key_def cursor_position_def 
      bt_next_example [unfolded cursor_at_def page_add_cursor_def example_db_def example_leaf1_def, simplified])
  done


lemma move_first_example:
  "merged_outcome (cursor_move erase_env example_db fresh_cursor True {HAM_CURSOR_FIRST})
   = Some (HAM_SUCCESS, True, Some (0x1000, 1), Some [1])"
proof -
  obtain db c where r: "cursor_move_first_key erase_env example_db fresh_cursor = Some (HAM_SUCCESS, db, c)"
     and c: "cur_coupled_to_txnop c" "cursor_position (cur_btree c) = Some (0x1000, 1)"
            "cur_txn c = \<lparr>txnc_coupled_op = Some erase_op, txnc_node = Some erase_node\<rparr>"
            "dc_elements (cur_dupecache c) = []"
    using first_key_example by (auto simp: map_option_case split: option.splits)
  have "cursor_move erase_env example_db fresh_cursor True {HAM_CURSOR_FIRST}
      = retrieve_key erase_env db c True"
    by (rule cursor_move_first_no_dupes [OF r _ _ c(4)]) (simp_all add: fresh_cursor_def)
  then show ?thesis
    using c by (simp add: merged_outcome_def retrieve_key_def erase_node_def)
qed


text \<open>
  Claim C5 (a key erased in the transaction is skipped by \<open>first()\<close>).  The smallest key
  of the B-tree equals the smallest key of the transaction tree, the key has no
  duplicates, and the transaction operation erases it.  The claim says that the move
  ends on the next existing key, or reports \<open>KeyNotFound\<close> when there is none.  With
  the single key \<open>[1]\<close> in the tree, \<open>cursor_move\<close> for \<open>HAM_CURSOR_FIRST\<close> returns 0 and
  the erased key, with the cursor coupled to the erase operation.  With the keys 1, 2, 3
  the B-tree cursor is advanced to the key 2, but the move again returns 0 and the erased
  key \<open>[1]\<close>, coupled to the erase operation: \<open>__cursor_move_next_key\<close>, which should
  continue the scan, returns 0 without doing anything.
\<close>

theorem first_returns_key_erased_in_txn:
  "merged_outcome (cursor_move erase_env single_key_db fresh_cursor True {HAM_CURSOR_FIRST})
     = Some (HAM_SUCCESS, True, None, Some [1])
   \<and> merged_outcome (cursor_move erase_env example_db fresh_cursor True {HAM_CURSOR_FIRST})
     = Some (HAM_SUCCESS, True, Some (0x1000, 1), Some [1])
   \<and> TXN_OP_ERASE \<in> op_flags erase_op"
  by (simp add: move_first_single move_first_example erase_op_def)

end
